theory Spec2Isabelle
  imports Complex_Main
begin

section \<open>Parsed JSON values as Python sees them\<close>

text \<open>
  The validators of \<^verbatim>\<open>app.py\<close> receive whatever \<^verbatim>\<open>json.load\<close> produced: \<^verbatim>\<open>None\<close>,
  a \<^verbatim>\<open>bool\<close>, an unbounded \<^verbatim>\<open>int\<close>, a \<^verbatim>\<open>float\<close>, a \<^verbatim>\<open>str\<close>, a \<^verbatim>\<open>list\<close> or a \<^verbatim>\<open>dict\<close> with
  \<^verbatim>\<open>str\<close> keys. A Python string is a sequence of code points, so a string is a list of
  natural numbers here and \<open>lit\<close> embeds the ASCII literals of the source.

  A finite \<^verbatim>\<open>float\<close> is represented by the rational it denotes (Python compares an
  \<^verbatim>\<open>int\<close> with a \<^verbatim>\<open>float\<close> exactly); every double is such a rational, so a statement
  about all \<open>Fin r\<close> covers all finite doubles. \<^verbatim>\<open>json\<close> also accepts the literals
  \<^verbatim>\<open>NaN\<close>, \<^verbatim>\<open>Infinity\<close> and \<^verbatim>\<open>-Infinity\<close>.

  A \<^verbatim>\<open>dict\<close> is the list of its items in insertion order; the keys of a parsed
  dictionary are distinct.
\<close>

type_synonym pystr = "nat list"

definition lit :: "string \<Rightarrow> pystr" where
  "lit s = map of_char s"

datatype pyfloat = Fin rat | PosInf | NegInf | NaN

datatype json =
    JNull
  | JBool bool
  | JInt int
  | JFloat pyfloat
  | JStr pystr
  | JList "json list"
  | JDict "(pystr \<times> json) list"

datatype py_error = TypeError | KeyError | AttributeError | ValueError | IndexError

text \<open>
  A message is one of the fixed texts of the source, or the formatted string
  \<^verbatim>\<open>f"Invalid type: {location_type}. Allowed types are: {allowed_types}."\<close>, kept
  symbolic as \<open>InvalidType location_type\<close>: its rendering goes through \<^verbatim>\<open>str()\<close> of an
  arbitrary value and through the iteration order of a \<^verbatim>\<open>set\<close> of strings.
\<close>

datatype message = Text string | InvalidType json

type_synonym verdict = "bool \<times> message"

type_synonym 'a result = "py_error + 'a"

fun ebind :: "'a result \<Rightarrow> ('a \<Rightarrow> 'b result) \<Rightarrow> 'b result" where
  "ebind (Inl e) f = Inl e"
| "ebind (Inr v) f = f v"

section \<open>The Python operations the validators apply\<close>

definition startswith :: "pystr \<Rightarrow> pystr \<Rightarrow> bool" where
  "startswith s p = (take (length p) s = p)"

fun is_substring :: "pystr \<Rightarrow> pystr \<Rightarrow> bool" where
  "is_substring k [] = (k = [])"
| "is_substring k (c # s) = (startswith (c # s) k \<or> is_substring k s)"

text \<open>\<^verbatim>\<open>key in x\<close> for a string \<open>key\<close>: key membership of a dict, element membership of a
  list, substring test on a string, \<^verbatim>\<open>TypeError\<close> on anything else.\<close>

fun py_contains :: "pystr \<Rightarrow> json \<Rightarrow> bool result" where
  "py_contains k (JDict d) = Inr (map_of d k \<noteq> None)"
| "py_contains k (JList xs) = Inr (JStr k \<in> set xs)"
| "py_contains k (JStr s) = Inr (is_substring k s)"
| "py_contains k _ = Inl TypeError"

text \<open>\<^verbatim>\<open>x[key]\<close> for a string \<open>key\<close>: lists and strings take integer indices only.\<close>

fun py_getitem_key :: "json \<Rightarrow> pystr \<Rightarrow> json result" where
  "py_getitem_key (JDict d) k = (case map_of d k of None \<Rightarrow> Inl KeyError | Some v \<Rightarrow> Inr v)"
| "py_getitem_key _ k = Inl TypeError"

definition allowed_types :: "pystr list" where
  "allowed_types = [lit ''Point'', lit ''Polygon'', lit ''LineString'']"

text \<open>\<^verbatim>\<open>location_type in allowed_types\<close>: membership in a set hashes the value, and lists
  and dicts are unhashable.\<close>

fun in_allowed_types :: "json \<Rightarrow> bool result" where
  "in_allowed_types (JList xs) = Inl TypeError"
| "in_allowed_types (JDict d) = Inl TypeError"
| "in_allowed_types (JStr s) = Inr (s \<in> set allowed_types)"
| "in_allowed_types _ = Inr False"

fun py_len :: "json \<Rightarrow> nat result" where
  "py_len (JList xs) = Inr (length xs)"
| "py_len (JStr s) = Inr (length s)"
| "py_len (JDict d) = Inr (length d)"
| "py_len _ = Inl TypeError"

text \<open>Iteration: a string yields its one-character strings, a dict its keys.\<close>

fun py_iter :: "json \<Rightarrow> json list result" where
  "py_iter (JList xs) = Inr xs"
| "py_iter (JStr s) = Inr (map (\<lambda>c. JStr [c]) s)"
| "py_iter (JDict d) = Inr (map (\<lambda>kv. JStr (fst kv)) d)"
| "py_iter _ = Inl TypeError"

text \<open>\<^verbatim>\<open>longitude, latitude = x\<close>\<close>

definition unpack2 :: "json \<Rightarrow> (json \<times> json) result" where
  "unpack2 x = ebind (py_iter x)
     (\<lambda>xs. case xs of [a, b] \<Rightarrow> Inr (a, b) | _ \<Rightarrow> Inl ValueError)"

text \<open>The numeric reading of a value: \<^verbatim>\<open>bool\<close> is a subclass of \<^verbatim>\<open>int\<close>.\<close>

fun num_of :: "json \<Rightarrow> pyfloat option" where
  "num_of (JBool b) = Some (Fin (if b then 1 else 0))"
| "num_of (JInt i) = Some (Fin (of_int i))"
| "num_of (JFloat f) = Some f"
| "num_of _ = None"

fun float_le :: "pyfloat \<Rightarrow> pyfloat \<Rightarrow> bool" where
  "float_le NaN y = False"
| "float_le x NaN = False"
| "float_le NegInf y = True"
| "float_le x PosInf = True"
| "float_le (Fin a) (Fin b) = (a \<le> b)"
| "float_le x y = False"

text \<open>\<^verbatim>\<open>lo <= x\<close> and \<^verbatim>\<open>x <= hi\<close> with an \<^verbatim>\<open>int\<close> literal on one side.\<close>

definition int_le :: "int \<Rightarrow> json \<Rightarrow> bool result" where
  "int_le lo x = (case num_of x of None \<Rightarrow> Inl TypeError
                  | Some v \<Rightarrow> Inr (float_le (Fin (of_int lo)) v))"

definition le_int :: "json \<Rightarrow> int \<Rightarrow> bool result" where
  "le_int x hi = (case num_of x of None \<Rightarrow> Inl TypeError
                  | Some v \<Rightarrow> Inr (float_le v (Fin (of_int hi))))"

text \<open>\<^verbatim>\<open>a and b\<close> evaluates \<open>b\<close> only when \<open>a\<close> is true; the chain \<^verbatim>\<open>lo <= x <= hi\<close> is
  \<^verbatim>\<open>lo <= x and x <= hi\<close>.\<close>

definition py_and :: "bool result \<Rightarrow> bool result \<Rightarrow> bool result" where
  "py_and a b = ebind a (\<lambda>c. if c then b else Inr False)"

definition in_range :: "int \<Rightarrow> int \<Rightarrow> json \<Rightarrow> bool result" where
  "in_range lo hi x = py_and (int_le lo x) (le_int x hi)"

text \<open>\<^verbatim>\<open>xs[i]\<close> for an integer \<open>i\<close>; a negative index counts from the end. The keys of a
  parsed dict are strings, so an integer key is never found.\<close>

definition list_index :: "'a list \<Rightarrow> int \<Rightarrow> 'a result" where
  "list_index xs i =
     (if 0 \<le> i \<and> i < int (length xs) then Inr (xs ! nat i)
      else if i < 0 \<and> - int (length xs) \<le> i then Inr (xs ! nat (int (length xs) + i))
      else Inl IndexError)"

fun py_index :: "json \<Rightarrow> int \<Rightarrow> json result" where
  "py_index (JList xs) i = list_index xs i"
| "py_index (JStr s) i = ebind (list_index s i) (\<lambda>c. Inr (JStr [c]))"
| "py_index (JDict d) i = Inl KeyError"
| "py_index _ i = Inl TypeError"

text \<open>
  Equality of two elements when Python compares containers: identity first, then
  \<^verbatim>\<open>==\<close>. Numbers compare by value across \<^verbatim>\<open>bool\<close>, \<^verbatim>\<open>int\<close> and \<^verbatim>\<open>float\<close>. Every \<^verbatim>\<open>NaN\<close>
  the parser produces is the one object \<^verbatim>\<open>json.decoder.NaN\<close>, so inside a container
  \<^verbatim>\<open>NaN\<close> equals \<^verbatim>\<open>NaN\<close> by identity. Dicts are equal when they have as many items and
  every key of the first has an equal value in the second.
\<close>

fun py_eq :: "json \<Rightarrow> json \<Rightarrow> bool"
  and py_eq_list :: "json list \<Rightarrow> json list \<Rightarrow> bool"
  and py_eq_items :: "(pystr \<times> json) list \<Rightarrow> (pystr \<times> json) list \<Rightarrow> bool" where
  "py_eq (JList xs) (JList ys) = py_eq_list xs ys"
| "py_eq (JDict d) (JDict e) = (length d = length e \<and> py_eq_items d e)"
| "py_eq (JStr s) (JStr t) = (s = t)"
| "py_eq JNull JNull = True"
| "py_eq a b = (case (num_of a, num_of b) of (Some x, Some y) \<Rightarrow> x = y | _ \<Rightarrow> False)"
| "py_eq_list [] [] = True"
| "py_eq_list (x # xs) (y # ys) = (py_eq x y \<and> py_eq_list xs ys)"
| "py_eq_list _ _ = False"
| "py_eq_items [] e = True"
| "py_eq_items ((k, v) # d) e =
     (case map_of e k of None \<Rightarrow> False | Some w \<Rightarrow> py_eq v w \<and> py_eq_items d e)"

text \<open>\<^verbatim>\<open>a != b\<close> evaluated directly: \<^verbatim>\<open>float.__ne__\<close> has no identity shortcut, so a
  \<^verbatim>\<open>NaN\<close> operand makes it true.\<close>

definition py_ne :: "json \<Rightarrow> json \<Rightarrow> bool" where
  "py_ne a b = (if a = JFloat NaN \<or> b = JFloat NaN then True else \<not> py_eq a b)"

text \<open>\<^verbatim>\<open>x.startswith(prefix)\<close>: only strings have the method.\<close>

fun py_startswith :: "json \<Rightarrow> pystr \<Rightarrow> bool result" where
  "py_startswith (JStr s) p = Inr (startswith s p)"
| "py_startswith _ p = Inl AttributeError"

fun is_list :: "json \<Rightarrow> bool" where
  "is_list (JList xs) = True"
| "is_list _ = False"

section \<open>The validators of \<^verbatim>\<open>app.py\<close>\<close>

text \<open>The \<^verbatim>\<open>for point in coordinates\<close> loop of the LineString branch. \<open>None\<close> means the
  loop ran to its end without returning.\<close>

fun linestring_points :: "json list \<Rightarrow> verdict option result" where
  "linestring_points [] = Inr None"
| "linestring_points (point # rest) =
     ebind (py_len point) (\<lambda>n.
       if n \<noteq> 2 then
         Inr (Some (False,
           Text ''Each point in LineString must have exactly two elements (longitude, latitude).''))
       else
         ebind (unpack2 point) (\<lambda>(longitude, latitude).
           ebind (py_and (in_range (- 180) 180 longitude) (in_range (- 90) 90 latitude)) (\<lambda>ok.
             if \<not> ok then
               Inr (Some (False,
                 Text ''Invalid point in LineString. Longitude must be in [-180, 180] and latitude in [-90, 90].''))
             else linestring_points rest)))"

text \<open>The \<^verbatim>\<open>for point in ring\<close> loop of the Polygon branch.\<close>

fun polygon_points :: "json list \<Rightarrow> verdict option result" where
  "polygon_points [] = Inr None"
| "polygon_points (point # rest) =
     ebind (py_len point) (\<lambda>n.
       if n \<noteq> 2 then
         Inr (Some (False,
           Text ''Each point in a Polygon ring must have exactly two elements (longitude, latitude).''))
       else
         ebind (unpack2 point) (\<lambda>(longitude, latitude).
           ebind (py_and (in_range (- 180) 180 longitude) (in_range (- 180) 180 latitude)) (\<lambda>ok.
             if \<not> ok then
               Inr (Some (False,
                 Text ''Invalid point in Polygon. Longitude must be in [-180, 180] and latitude in [-90, 90].''))
             else polygon_points rest)))"

text \<open>The \<^verbatim>\<open>for ring in coordinates\<close> loop of the Polygon branch.\<close>

fun polygon_rings :: "json list \<Rightarrow> verdict option result" where
  "polygon_rings [] = Inr None"
| "polygon_rings (ring # rest) =
     ebind (py_len ring) (\<lambda>n.
       if n < 4 then
         Inr (Some (False,
           Text ''Each linear ring in Polygon must have at least four points (coordinate pairs).''))
       else
         ebind (py_index ring 0) (\<lambda>first.
         ebind (py_index ring (- 1)) (\<lambda>last.
           if py_ne first last then
             Inr (Some (False,
               Text ''The first and last point in each linear ring must be the same to close the Polygon.''))
           else
             ebind (py_iter ring) (\<lambda>points.
             ebind (polygon_points points) (\<lambda>r.
               case r of Some v \<Rightarrow> Inr (Some v) | None \<Rightarrow> polygon_rings rest)))))"

definition location_valid :: verdict where
  "location_valid = (True, Text ''Location format is valid.'')"

definition validate_point :: "json \<Rightarrow> verdict result" where
  "validate_point coordinates =
     ebind (py_len coordinates) (\<lambda>n.
       if n \<noteq> 2 then
         Inr (False,
           Text ''Point coordinates must contain exactly two elements (longitude, latitude).'')
       else
         ebind (unpack2 coordinates) (\<lambda>(longitude, latitude).
           ebind (py_and (in_range (- 180) 180 longitude) (in_range (- 90) 90 latitude)) (\<lambda>ok.
             if \<not> ok then
               Inr (False,
                 Text ''Invalid coordinates for 'Point'. Longitude must be in [-180, 180] and latitude in [-90, 90].'')
             else Inr location_valid)))"

definition validate_linestring :: "json \<Rightarrow> verdict result" where
  "validate_linestring coordinates =
     ebind (py_len coordinates) (\<lambda>n.
       if n < 2 then
         Inr (False,
           Text ''LineString must have at least two points (each point is a pair of coordinates).'')
       else
         ebind (py_iter coordinates) (\<lambda>points.
         ebind (linestring_points points) (\<lambda>r.
           case r of Some v \<Rightarrow> Inr v | None \<Rightarrow> Inr location_valid)))"

definition validate_polygon :: "json \<Rightarrow> verdict result" where
  "validate_polygon coordinates =
     ebind (py_len coordinates) (\<lambda>n.
       if n < 1 then
         Inr (False,
           Text ''Polygon must have at least one linear ring (an array of arrays of coordinates).'')
       else
         ebind (py_iter coordinates) (\<lambda>rings.
         ebind (polygon_rings rings) (\<lambda>r.
           case r of Some v \<Rightarrow> Inr v | None \<Rightarrow> Inr location_valid)))"

text \<open>\<^verbatim>\<open>"type" not in location or "coordinates" not in location\<close>: the second test runs
  only when the first is false.\<close>

definition type_or_coordinates_missing :: "json \<Rightarrow> bool result" where
  "type_or_coordinates_missing location =
     ebind (py_contains (lit ''type'') location) (\<lambda>has_type.
       if \<not> has_type then Inr True
       else ebind (py_contains (lit ''coordinates'') location) (\<lambda>has_coordinates.
         Inr (\<not> has_coordinates)))"

definition validate_location_format :: "json \<Rightarrow> verdict result" where
  "validate_location_format location =
     ebind (type_or_coordinates_missing location) (\<lambda>missing.
       if missing then Inr (False, Text ''Missing 'type' or 'coordinates' in location.'')
       else
         ebind (py_getitem_key location (lit ''type'')) (\<lambda>location_type.
         ebind (in_allowed_types location_type) (\<lambda>allowed.
           if \<not> allowed then Inr (False, InvalidType location_type)
           else
             ebind (py_getitem_key location (lit ''coordinates'')) (\<lambda>coordinates.
               if py_eq location_type (JStr (lit ''Point'')) then validate_point coordinates
               else if py_eq location_type (JStr (lit ''LineString'')) then
                 validate_linestring coordinates
               else if py_eq location_type (JStr (lit ''Polygon'')) then
                 validate_polygon coordinates
               else Inr location_valid))))"

definition check_location_in_json :: "json \<Rightarrow> verdict result" where
  "check_location_in_json json_data =
     ebind (py_contains (lit ''location'') json_data) (\<lambda>present.
       if \<not> present then Inr (False, Text ''The 'location' attribute is missing.'')
       else
         ebind (py_getitem_key json_data (lit ''location'')) (\<lambda>location.
         ebind (validate_location_format location) (\<lambda>(is_valid, message).
           Inr (is_valid, message))))"

definition expected_prefix :: pystr where
  "expected_prefix = lit ''https://raw.githubusercontent.com/smart-data-models/''"

text \<open>\<^verbatim>\<open>not isinstance(context, list) or len(context) == 0\<close>: the length is taken only of a
  list.\<close>

definition validate_context_format :: "json \<Rightarrow> verdict result" where
  "validate_context_format context =
     ebind (if \<not> is_list context then Inr True
            else ebind (py_len context) (\<lambda>n. Inr (n = 0))) (\<lambda>bad.
       if bad then Inr (False, Text ''The '@context' attribute should be a non-empty list'')
       else
         ebind (py_index context 0) (\<lambda>context_url.
         ebind (py_startswith context_url expected_prefix) (\<lambda>ok.
           if \<not> ok then Inr (False, Text ''Invalid @context URL.'')
           else Inr (True, Text ''Context format is valid.''))))"

definition check_context_in_json :: "json \<Rightarrow> verdict result" where
  "check_context_in_json json_data =
     ebind (py_contains (lit ''@context'') json_data) (\<lambda>present.
       if \<not> present then Inr (False, Text ''The '@context' attribute is missing.'')
       else
         ebind (py_getitem_key json_data (lit ''@context'')) (\<lambda>context.
         ebind (validate_context_format context) (\<lambda>(is_valid, message).
           Inr (is_valid, message))))"

definition validation_functions :: "(json \<Rightarrow> verdict result) list" where
  "validation_functions = [check_location_in_json, check_context_in_json]"

text \<open>The \<^verbatim>\<open>for validate_func in validation_functions\<close> loop with the return after it.\<close>

fun run_validations :: "(json \<Rightarrow> verdict result) list \<Rightarrow> json \<Rightarrow> verdict result" where
  "run_validations [] json_data = Inr (True, Text ''Data model is valid.'')"
| "run_validations (validate_func # rest) json_data =
     ebind (validate_func json_data) (\<lambda>(is_valid, message).
       if \<not> is_valid then Inr (False, message)
       else run_validations rest json_data)"

definition validate_json_data :: "json \<Rightarrow> verdict result" where
  "validate_json_data json_data = run_validations validation_functions json_data"

section \<open>Vocabulary of the specification\<close>

text \<open>A geometry object with the two keys \<^verbatim>\<open>type\<close> and \<^verbatim>\<open>coordinates\<close>, in that order.\<close>

definition geometry :: "string \<Rightarrow> json \<Rightarrow> json" where
  "geometry t coordinates = JDict [(lit ''type'', JStr (lit t)), (lit ''coordinates'', coordinates)]"

text \<open>The numbers of the JSON data model: booleans are a kind of their own there.\<close>

fun is_number :: "json \<Rightarrow> bool" where
  "is_number (JInt i) = True"
| "is_number (JFloat f) = True"
| "is_number _ = False"

text \<open>\<open>lo \<le> v \<le> hi\<close>, bounds included, for a value read as a number; \<^verbatim>\<open>NaN\<close> and the
  infinities are in no interval.\<close>

fun in_bounds :: "int \<Rightarrow> int \<Rightarrow> json \<Rightarrow> bool" where
  "in_bounds lo hi v =
     (case num_of v of Some (Fin x) \<Rightarrow> of_int lo \<le> x \<and> x \<le> of_int hi | _ \<Rightarrow> False)"

text \<open>Polygon coordinates given as rings of points of values.\<close>

definition poly_coords :: "json list list list \<Rightarrow> json" where
  "poly_coords rings = JList (map (\<lambda>ring. JList (map JList ring)) rings)"

text \<open>Two points are the same when they have the same numbers at the same places.\<close>

definition same_point :: "json list \<Rightarrow> json list \<Rightarrow> bool" where
  "same_point p q = (map num_of p = map num_of q)"

text \<open>
  The Polygon rule in the words of the specification: the rings in order and, inside a
  ring, its length, its closure and then its points in order; the first rule broken
  gives the message. The range of a Polygon point is \<open>[-180, 180]\<close> for both numbers.
\<close>

fun first_violation :: "('a \<Rightarrow> message option) \<Rightarrow> 'a list \<Rightarrow> message option" where
  "first_violation rule [] = None"
| "first_violation rule (x # xs) =
     (case rule x of Some m \<Rightarrow> Some m | None \<Rightarrow> first_violation rule xs)"

definition point_rule :: "json list \<Rightarrow> message option" where
  "point_rule p =
     (if length p \<noteq> 2 then
        Some (Text ''Each point in a Polygon ring must have exactly two elements (longitude, latitude).'')
      else if \<not> (in_bounds (- 180) 180 (p ! 0) \<and> in_bounds (- 180) 180 (p ! 1)) then
        Some (Text ''Invalid point in Polygon. Longitude must be in [-180, 180] and latitude in [-90, 90].'')
      else None)"

definition ring_rule :: "json list list \<Rightarrow> message option" where
  "ring_rule ring =
     (if length ring < 4 then
        Some (Text ''Each linear ring in Polygon must have at least four points (coordinate pairs).'')
      else if \<not> same_point (hd ring) (last ring) then
        Some (Text ''The first and last point in each linear ring must be the same to close the Polygon.'')
      else first_violation point_rule ring)"

definition polygon_rule :: "json list list list \<Rightarrow> verdict" where
  "polygon_rule rings =
     (if rings = [] then
        (False, Text ''Polygon must have at least one linear ring (an array of arrays of coordinates).'')
      else case first_violation ring_rule rings of
             Some m \<Rightarrow> (False, m)
           | None \<Rightarrow> (True, Text ''Location format is valid.''))"

text \<open>What a successful Polygon validation says of the points and of the rings.\<close>

definition pair_in_polygon_range :: "json list \<Rightarrow> bool" where
  "pair_in_polygon_range p =
     (\<exists>lon lat. p = [lon, lat] \<and> in_bounds (- 180) 180 lon \<and> in_bounds (- 180) 180 lat)"

definition ring_ok :: "json list list \<Rightarrow> bool" where
  "ring_ok ring \<longleftrightarrow> 4 \<le> length ring \<and> same_point (hd ring) (last ring) \<and>
     (\<forall>p\<in>set ring. pair_in_polygon_range p)"

text \<open>Documents used as concrete inputs.\<close>

definition example_point :: json where
  "example_point = geometry ''Point'' (JList [JInt 10, JInt 20])"

definition example_context :: json where
  "example_context = JList [JStr (lit ''https://raw.githubusercontent.com/smart-data-models/foo'')]"

section \<open>Unfolding the validators\<close>

lemmas py_defs = lit_def startswith_def allowed_types_def unpack2_def int_le_def le_int_def
  py_and_def in_range_def list_index_def py_ne_def expected_prefix_def geometry_def
  location_valid_def type_or_coordinates_missing_def example_point_def example_context_def

lemma ebind_return_pair: "ebind r Inr = r"
  by (cases r) auto

lemma ebind_InrE:
  assumes "ebind r f = Inr y"
  obtains v where "r = Inr v" and "f v = Inr y"
  using assms by (cases r) auto

lemma validate_json_data_unfold:
  "validate_json_data doc =
     ebind (check_location_in_json doc) (\<lambda>(is_valid, message).
       if \<not> is_valid then Inr (False, message)
       else ebind (check_context_in_json doc) (\<lambda>(is_valid, message).
         if \<not> is_valid then Inr (False, message)
         else Inr (True, Text ''Data model is valid.'')))"
  by (simp add: validate_json_data_def validation_functions_def cong: if_cong)

lemma check_location_in_json_JDict:
  "check_location_in_json (JDict d) =
     (case map_of d (lit ''location'') of
        None \<Rightarrow> Inr (False, Text ''The 'location' attribute is missing.'')
      | Some location \<Rightarrow> validate_location_format location)"
  by (cases "map_of d (lit ''location'')")
     (simp_all add: check_location_in_json_def ebind_return_pair)

lemma check_context_in_json_JDict:
  "check_context_in_json (JDict d) =
     (case map_of d (lit ''@context'') of
        None \<Rightarrow> Inr (False, Text ''The '@context' attribute is missing.'')
      | Some context \<Rightarrow> validate_context_format context)"
  by (cases "map_of d (lit ''@context'')")
     (simp_all add: check_context_in_json_def ebind_return_pair)

lemma validate_json_data_location_fails:
  "check_location_in_json doc = Inr (False, m) \<Longrightarrow> validate_json_data doc = Inr (False, m)"
  by (simp add: validate_json_data_def validation_functions_def)

lemma validate_json_data_context_fails:
  "check_location_in_json doc = Inr (True, m') \<Longrightarrow> check_context_in_json doc = Inr (False, m)
    \<Longrightarrow> validate_json_data doc = Inr (False, m)"
  by (simp add: validate_json_data_def validation_functions_def)

lemma validate_json_data_all_pass:
  "check_location_in_json doc = Inr (True, m1) \<Longrightarrow> check_context_in_json doc = Inr (True, m2)
    \<Longrightarrow> validate_json_data doc = Inr (True, Text ''Data model is valid.'')"
  by (simp add: validate_json_data_def validation_functions_def)

lemma validate_context_format_not_list:
  "\<not> is_list v \<Longrightarrow> validate_context_format v =
      Inr (False, Text ''The '@context' attribute should be a non-empty list'')"
  by (simp add: validate_context_format_def)

lemma validate_context_format_Nil:
  "validate_context_format (JList []) =
      Inr (False, Text ''The '@context' attribute should be a non-empty list'')"
  by (simp add: validate_context_format_def)

lemma validate_context_format_Cons:
  "validate_context_format (JList (x # rest)) =
     ebind (py_startswith x expected_prefix) (\<lambda>ok.
       if \<not> ok then Inr (False, Text ''Invalid @context URL.'')
       else Inr (True, Text ''Context format is valid.''))"
  by (simp add: validate_context_format_def list_index_def)

lemma validate_location_format_dispatch:
  assumes "map_of g (lit ''type'') = Some (JStr t)"
    and "map_of g (lit ''coordinates'') = Some c"
  shows "validate_location_format (JDict g) =
     (if t = lit ''Point'' then validate_point c
      else if t = lit ''LineString'' then validate_linestring c
      else if t = lit ''Polygon'' then validate_polygon c
      else Inr (False, InvalidType (JStr t)))"
  using assms
  by (simp add: validate_location_format_def type_or_coordinates_missing_def allowed_types_def)

lemma validate_context_format_success:
  "(\<exists>m. validate_context_format c = Inr (True, m)) \<longleftrightarrow>
     (\<exists>s rest. c = JList (JStr s # rest) \<and> startswith s expected_prefix)"
proof (cases c)
  case (JList xs)
  show ?thesis
  proof (cases xs)
    case Nil
    with JList show ?thesis by (simp add: validate_context_format_Nil)
  next
    case (Cons x rest)
    with JList show ?thesis
      by (cases x) (simp_all add: validate_context_format_Cons)
  qed
qed (simp_all add: validate_context_format_not_list)

section \<open>Range tests and the Point branch\<close>

lemma length_two_conv: "length xs = 2 \<longleftrightarrow> (\<exists>a b. xs = [a, b])"
  by (cases xs; cases "tl xs") auto

lemma in_range_num:
  "num_of v = Some f \<Longrightarrow> in_range lo hi v = Inr (in_bounds lo hi v)"
  by (cases f) (auto simp: in_range_def py_and_def int_le_def le_int_def)

lemma in_range_not_num: "num_of v = None \<Longrightarrow> in_range lo hi v = Inl TypeError"
  by (simp add: in_range_def py_and_def int_le_def)

lemma in_range_cases:
  "in_range lo hi v = (if num_of v = None then Inl TypeError else Inr (in_bounds lo hi v))"
  using in_range_num [of v _ lo hi] in_range_not_num [of v lo hi]
  by (cases "num_of v") (simp_all del: in_bounds.simps)

text \<open>The condition of the three range tests, with the latitude bound \<open>b\<close>.\<close>

lemma lon_lat_test:
  "py_and (in_range (- 180) 180 lon) (in_range (- b) b lat) =
     (if num_of lon = None then Inl TypeError
      else if \<not> in_bounds (- 180) 180 lon then Inr False
      else if num_of lat = None then Inl TypeError
      else Inr (in_bounds (- b) b lat))"
  by (simp add: in_range_cases py_and_def del: in_bounds.simps)

lemma validate_point_JList2:
  "validate_point (JList [a, b]) =
     ebind (py_and (in_range (- 180) 180 a) (in_range (- 90) 90 b)) (\<lambda>ok.
       if \<not> ok then
         Inr (False,
           Text ''Invalid coordinates for 'Point'. Longitude must be in [-180, 180] and latitude in [-90, 90].'')
       else Inr location_valid)"
  by (simp add: validate_point_def unpack2_def)

lemma in_bounds_num: "in_bounds lo hi v \<Longrightarrow> num_of v \<noteq> None"
  by (auto split: option.splits)

lemma validate_point_wrong_length:
  "length xs \<noteq> 2 \<Longrightarrow> validate_point (JList xs) =
     Inr (False, Text ''Point coordinates must contain exactly two elements (longitude, latitude).'')"
  by (simp add: validate_point_def)

lemma validate_point_success:
  "(\<exists>m. validate_point c = Inr (True, m)) \<longleftrightarrow>
   (\<exists>a b. c = JList [a, b] \<and> in_bounds (- 180) 180 a \<and> in_bounds (- 90) 90 b)"
proof (cases c)
  case (JList xs)
  show ?thesis
  proof (cases "length xs = 2")
    case True
    then obtain a b where "xs = [a, b]" by (auto simp: length_two_conv)
    with JList show ?thesis
      using in_bounds_num [of "- 180" 180 a] in_bounds_num [of "- 90" 90 b]
      by (auto simp add: validate_point_JList2 lon_lat_test location_valid_def
          simp del: in_bounds.simps)
  next
    case False
    with JList show ?thesis
      by (auto simp: validate_point_wrong_length)
  qed
next
  case (JStr s)
  show ?thesis
  proof (cases "length s = 2")
    case True
    then obtain a b where "s = [a, b]" by (auto simp: length_two_conv)
    with JStr show ?thesis
      by (simp add: validate_point_def unpack2_def in_range_not_num py_and_def)
  next
    case False
    with JStr show ?thesis by (simp add: validate_point_def)
  qed
next
  case (JDict d)
  show ?thesis
  proof (cases "length d = 2")
    case True
    then obtain a b where "d = [a, b]" by (auto simp: length_two_conv)
    with JDict show ?thesis
      by (simp add: validate_point_def unpack2_def in_range_not_num py_and_def)
  next
    case False
    with JDict show ?thesis by (simp add: validate_point_def)
  qed
qed (simp_all add: validate_point_def)

lemma validate_point_valid_message:
  "validate_point c = Inr (True, m) \<Longrightarrow> m = Text ''Location format is valid.''"
  by (auto simp add: validate_point_def location_valid_def split: if_splits prod.splits
      elim!: ebind_InrE)

lemma in_bounds_iff:
  "in_bounds lo hi v \<longleftrightarrow> (\<exists>x. num_of v = Some (Fin x) \<and> of_int lo \<le> x \<and> x \<le> of_int hi)"
  by (auto split: option.splits pyfloat.splits)

lemma linestring_points_pair:
  "linestring_points (JList [a, b] # rest) =
     (if num_of a = None then Inl TypeError
      else if \<not> in_bounds (- 180) 180 a then
        Inr (Some (False,
          Text ''Invalid point in LineString. Longitude must be in [-180, 180] and latitude in [-90, 90].''))
      else if num_of b = None then Inl TypeError
      else if \<not> in_bounds (- 90) 90 b then
        Inr (Some (False,
          Text ''Invalid point in LineString. Longitude must be in [-180, 180] and latitude in [-90, 90].''))
      else linestring_points rest)"
  by (simp add: unpack2_def lon_lat_test del: in_bounds.simps)

lemma validate_point_pair:
  "validate_point (JList [a, b]) =
     (if num_of a = None then Inl TypeError
      else if \<not> in_bounds (- 180) 180 a then
        Inr (False,
          Text ''Invalid coordinates for 'Point'. Longitude must be in [-180, 180] and latitude in [-90, 90].'')
      else if num_of b = None then Inl TypeError
      else if \<not> in_bounds (- 90) 90 b then
        Inr (False,
          Text ''Invalid coordinates for 'Point'. Longitude must be in [-180, 180] and latitude in [-90, 90].'')
      else Inr location_valid)"
  by (simp add: validate_point_JList2 lon_lat_test del: in_bounds.simps)

section \<open>The Polygon branch against its rule\<close>

lemma py_eq_numeric:
  "num_of a \<noteq> None \<Longrightarrow> num_of b \<noteq> None \<Longrightarrow> py_eq a b \<longleftrightarrow> num_of a = num_of b"
  by (cases a; cases b) auto

lemma py_eq_list_numeric:
  "\<forall>v\<in>set p. num_of v \<noteq> None \<Longrightarrow> \<forall>v\<in>set q. num_of v \<noteq> None \<Longrightarrow>
   py_eq_list p q \<longleftrightarrow> same_point p q"
proof (induction p arbitrary: q)
  case Nil
  then show ?case by (cases q) (simp_all add: same_point_def)
next
  case (Cons a p)
  show ?case
  proof (cases q)
    case Nil
    then show ?thesis by (simp add: same_point_def)
  next
    case (Cons b q')
    with Cons.prems Cons.IH [of q'] show ?thesis
      by (simp add: same_point_def py_eq_numeric)
  qed
qed

lemma list_index_first: "xs \<noteq> [] \<Longrightarrow> list_index xs 0 = Inr (hd xs)"
  by (simp add: list_index_def hd_conv_nth)

lemma list_index_last: "xs \<noteq> [] \<Longrightarrow> list_index xs (- 1) = Inr (last xs)"
  by (cases xs rule: rev_cases) (simp_all add: list_index_def nth_append)

lemma polygon_points_pair:
  "polygon_points (JList [a, b] # rest) =
     (if num_of a = None then Inl TypeError
      else if \<not> in_bounds (- 180) 180 a then
        Inr (Some (False,
          Text ''Invalid point in Polygon. Longitude must be in [-180, 180] and latitude in [-90, 90].''))
      else if num_of b = None then Inl TypeError
      else if \<not> in_bounds (- 180) 180 b then
        Inr (Some (False,
          Text ''Invalid point in Polygon. Longitude must be in [-180, 180] and latitude in [-90, 90].''))
      else polygon_points rest)"
  by (simp add: unpack2_def lon_lat_test del: in_bounds.simps)

lemma polygon_points_not_pair:
  "length p \<noteq> 2 \<Longrightarrow> polygon_points (JList p # rest) =
     Inr (Some (False,
       Text ''Each point in a Polygon ring must have exactly two elements (longitude, latitude).''))"
  by simp

lemma point_rule_pair:
  "point_rule [a, b] =
     (if \<not> (in_bounds (- 180) 180 a \<and> in_bounds (- 180) 180 b) then
        Some (Text ''Invalid point in Polygon. Longitude must be in [-180, 180] and latitude in [-90, 90].'')
      else None)"
  by (simp add: point_rule_def del: in_bounds.simps)

lemma point_rule_not_pair:
  "length p \<noteq> 2 \<Longrightarrow> point_rule p =
     Some (Text ''Each point in a Polygon ring must have exactly two elements (longitude, latitude).'')"
  by (simp add: point_rule_def)

lemma polygon_points_numeric:
  "\<forall>p\<in>set ring. \<forall>v\<in>set p. num_of v \<noteq> None \<Longrightarrow>
   polygon_points (map JList ring) = Inr (map_option (Pair False) (first_violation point_rule ring))"
proof (induction ring)
  case Nil
  then show ?case by simp
next
  case (Cons p ring)
  then have IH: "polygon_points (map JList ring) =
      Inr (map_option (Pair False) (first_violation point_rule ring))"
    by simp
  show ?case
  proof (cases "length p = 2")
    case True
    then obtain a b where p: "p = [a, b]" by (auto simp: length_two_conv)
    with Cons.prems have num: "num_of a \<noteq> None" "num_of b \<noteq> None" by simp_all
    show ?thesis
      by (simp add: p polygon_points_pair point_rule_pair IH num
          del: in_bounds.simps polygon_points.simps)
  next
    case False
    then show ?thesis
      by (simp add: polygon_points_not_pair point_rule_not_pair del: polygon_points.simps)
  qed
qed

lemma polygon_rings_step:
  assumes "\<forall>p\<in>set ring. \<forall>v\<in>set p. num_of v \<noteq> None"
  shows "polygon_rings (JList (map JList ring) # rest) =
     (case ring_rule ring of Some m \<Rightarrow> Inr (Some (False, m)) | None \<Rightarrow> polygon_rings rest)"
proof (cases "length ring < 4")
  case True
  then show ?thesis by (simp add: ring_rule_def)
next
  case False
  then have ne: "ring \<noteq> []" by auto
  then have num: "\<forall>v\<in>set (hd ring). num_of v \<noteq> None" "\<forall>v\<in>set (last ring). num_of v \<noteq> None"
    using assms hd_in_set [OF ne] last_in_set [OF ne] by blast+
  have ne': "map JList ring \<noteq> []" using ne by simp
  have idx: "list_index (map JList ring) 0 = Inr (JList (hd ring))"
    "list_index (map JList ring) (- 1) = Inr (JList (last ring))"
    using list_index_first [OF ne'] list_index_last [OF ne'] ne
    by (simp_all add: hd_map last_map)
  have ne_eq: "py_ne (JList (hd ring)) (JList (last ring)) \<longleftrightarrow> \<not> same_point (hd ring) (last ring)"
    using py_eq_list_numeric [OF num] by (simp add: py_ne_def)
  show ?thesis
    using False
    by (simp add: idx ne_eq ring_rule_def polygon_points_numeric [OF assms] split: option.splits)
qed

lemma polygon_rings_numeric:
  "\<forall>ring\<in>set rings. \<forall>p\<in>set ring. \<forall>v\<in>set p. num_of v \<noteq> None \<Longrightarrow>
   polygon_rings (map (\<lambda>ring. JList (map JList ring)) rings) =
     Inr (map_option (Pair False) (first_violation ring_rule rings))"
proof (induction rings)
  case Nil
  then show ?case by simp
next
  case (Cons ring rings)
  then show ?case
    by (simp add: polygon_rings_step del: polygon_rings.simps split: option.splits)
qed

lemma validate_polygon_numeric:
  assumes "\<forall>ring\<in>set rings. \<forall>p\<in>set ring. \<forall>v\<in>set p. num_of v \<noteq> None"
  shows "validate_polygon (poly_coords rings) = Inr (polygon_rule rings)"
  by (cases "rings = []")
    (simp_all add: validate_polygon_def poly_coords_def polygon_rule_def location_valid_def
      polygon_rings_numeric [OF assms] split: option.splits)

lemma first_violation_None:
  "first_violation rule xs = None \<longleftrightarrow> (\<forall>x\<in>set xs. rule x = None)"
  by (induction xs) (auto split: option.splits)

lemma point_rule_None:
  "point_rule p = None \<longleftrightarrow>
     (\<exists>lon lat. p = [lon, lat] \<and> in_bounds (- 180) 180 lon \<and> in_bounds (- 180) 180 lat)"
  by (auto simp add: point_rule_def length_two_conv simp del: in_bounds.simps)

lemma polygon_rule_valid:
  "fst (polygon_rule rings) \<longleftrightarrow>
     rings \<noteq> [] \<and>
     (\<forall>ring\<in>set rings. 4 \<le> length ring \<and> same_point (hd ring) (last ring) \<and>
        (\<forall>p\<in>set ring. \<exists>lon lat. p = [lon, lat] \<and>
            in_bounds (- 180) 180 lon \<and> in_bounds (- 180) 180 lat))"
proof -
  have "ring_rule ring = None \<longleftrightarrow> 4 \<le> length ring \<and> same_point (hd ring) (last ring) \<and>
        (\<forall>p\<in>set ring. \<exists>lon lat. p = [lon, lat] \<and>
            in_bounds (- 180) 180 lon \<and> in_bounds (- 180) 180 lat)" for ring
    by (auto simp add: ring_rule_def first_violation_None point_rule_None simp del: in_bounds.simps)
  then have rings: "first_violation ring_rule rings = None \<longleftrightarrow>
      (\<forall>ring\<in>set rings. 4 \<le> length ring \<and> same_point (hd ring) (last ring) \<and>
        (\<forall>p\<in>set ring. \<exists>lon lat. p = [lon, lat] \<and>
            in_bounds (- 180) 180 lon \<and> in_bounds (- 180) 180 lat))"
    by (simp only: first_violation_None)
  have "fst (polygon_rule rings) \<longleftrightarrow> rings \<noteq> [] \<and> first_violation ring_rule rings = None"
    by (simp add: polygon_rule_def split: option.splits)
  then show ?thesis
    by (simp only: rings)
qed

section \<open>What a valid Polygon looks like\<close>

lemma ebind_eq_Inr: "ebind r f = Inr y \<longleftrightarrow> (\<exists>v. r = Inr v \<and> f v = Inr y)"
  by (cases r) auto

lemma polygon_points_Cons_Inr:
  assumes "polygon_points (pt # rest) = Inr r"
  shows "(\<exists>m. r = Some (False, m)) \<or>
         (polygon_points rest = Inr r \<and> (\<exists>p. pt = JList p \<and> pair_in_polygon_range p))"
proof (cases pt)
  case (JList xs)
  show ?thesis
  proof (cases "length xs = 2")
    case True
    then obtain a b where xs: "xs = [a, b]" by (auto simp: length_two_conv)
    from assms show ?thesis
      unfolding JList xs polygon_points_pair pair_in_polygon_range_def
      by (auto split: if_splits simp del: in_bounds.simps polygon_points.simps)
  next
    case False
    with assms JList show ?thesis
      by (auto simp add: polygon_points_not_pair simp del: polygon_points.simps)
  qed
next
  case (JStr s)
  show ?thesis
  proof (cases "length s = 2")
    case True
    then obtain a b where "s = [a, b]" by (auto simp: length_two_conv)
    with assms JStr show ?thesis
      by (simp add: unpack2_def in_range_not_num py_and_def)
  next
    case False
    with assms JStr show ?thesis by auto
  qed
next
  case (JDict d)
  show ?thesis
  proof (cases "length d = 2")
    case True
    then obtain a b where "d = [a, b]" by (auto simp: length_two_conv)
    with assms JDict show ?thesis
      by (simp add: unpack2_def in_range_not_num py_and_def)
  next
    case False
    with assms JDict show ?thesis by auto
  qed
qed (use assms in simp_all)

lemma polygon_points_Some_False:
  "polygon_points ps = Inr (Some v) \<Longrightarrow> \<not> fst v"
proof (induction ps)
  case Nil
  then show ?case by simp
next
  case (Cons pt rest)
  from polygon_points_Cons_Inr [OF Cons.prems] Cons.IH show ?case by auto
qed

lemma polygon_points_None:
  "polygon_points ps = Inr None \<Longrightarrow>
     \<exists>pts. ps = map JList pts \<and> (\<forall>p\<in>set pts. pair_in_polygon_range p)"
proof (induction ps)
  case Nil
  then show ?case by simp
next
  case (Cons pt rest)
  from polygon_points_Cons_Inr [OF Cons.prems]
  obtain p where rest: "polygon_points rest = Inr None"
    and p: "pt = JList p" "pair_in_polygon_range p"
    by auto
  from Cons.IH [OF rest] obtain pts where
    "rest = map JList pts" "\<forall>p\<in>set pts. pair_in_polygon_range p"
    by blast
  with p have "pt # rest = map JList (p # pts) \<and> (\<forall>q\<in>set (p # pts). pair_in_polygon_range q)"
    by simp
  then show ?case by (rule exI [of _ "p # pts"])
qed

lemma pair_numeric:
  "pair_in_polygon_range p \<Longrightarrow> \<forall>v\<in>set p. num_of v \<noteq> None"
  using in_bounds_num by (auto simp add: pair_in_polygon_range_def simp del: in_bounds.simps)

lemma polygon_rings_Cons_Inr:
  assumes "polygon_rings (ring # rest) = Inr r"
  shows "(\<exists>m. r = Some (False, m)) \<or>
         (polygon_rings rest = Inr r \<and> (\<exists>pts. ring = JList (map JList pts) \<and> ring_ok pts))"
proof -
  from assms obtain n where n: "py_len ring = Inr n"
    by (auto elim!: ebind_InrE)
  show ?thesis
  proof (cases "n < 4")
    case True
    with assms n show ?thesis by auto
  next
    case False
    with assms n obtain p0 pn where fl: "py_index ring 0 = Inr p0"
      "py_index ring (- 1) = Inr pn"
      by (auto elim!: ebind_InrE)
    show ?thesis
    proof (cases "py_ne p0 pn")
      case True
      with assms n False fl show ?thesis by auto
    next
      case ne: False
      with assms n False fl obtain points r' where it: "py_iter ring = Inr points"
        and pp: "polygon_points points = Inr r'"
        and r: "(case r' of Some v \<Rightarrow> Inr (Some v) | None \<Rightarrow> polygon_rings rest) = Inr r"
        by (auto elim!: ebind_InrE)
      show ?thesis
      proof (cases r')
        case (Some v)
        with r polygon_points_Some_False [of points v] pp show ?thesis
          by (cases v) auto
      next
        case None
        with r have rest: "polygon_rings rest = Inr r" by simp
        from None pp polygon_points_None obtain pts where pts: "points = map JList pts"
          "\<forall>p\<in>set pts. pair_in_polygon_range p"
          by blast
        have ring: "ring = JList (map JList pts)" and len: "4 \<le> length pts"
        proof -
          show "ring = JList (map JList pts)"
          proof (cases ring)
            case (JList xs)
            with it pts show ?thesis by simp
          next
            case (JStr s)
            with n False have "s \<noteq> []" by auto
            with JStr it pts show ?thesis by (cases s; cases pts) auto
          next
            case (JDict d)
            with fl show ?thesis by simp
          qed (use n in simp_all)
          with n False show "4 \<le> length pts" by simp
        qed
        from len have ne': "pts \<noteq> []" "map JList pts \<noteq> []" by auto
        have "p0 = JList (hd pts)" "pn = JList (last pts)"
          using fl list_index_first [OF ne'(2)] list_index_last [OF ne'(2)] ne'(1)
          by (simp_all add: ring hd_map last_map)
        with ne have "py_eq_list (hd pts) (last pts)"
          by (simp add: py_ne_def)
        moreover have "\<forall>v\<in>set (hd pts). num_of v \<noteq> None" "\<forall>v\<in>set (last pts). num_of v \<noteq> None"
          using pts(2) pair_numeric hd_in_set [OF ne'(1)] last_in_set [OF ne'(1)] by blast+
        ultimately have "same_point (hd pts) (last pts)"
          using py_eq_list_numeric by blast
        with len pts(2) have "ring_ok pts" by (simp add: ring_ok_def)
        with rest ring show ?thesis by blast
      qed
    qed
  qed
qed

lemma polygon_rings_Some_False:
  "polygon_rings rs = Inr (Some v) \<Longrightarrow> \<not> fst v"
proof (induction rs)
  case Nil
  then show ?case by simp
next
  case (Cons ring rest)
  from polygon_rings_Cons_Inr [OF Cons.prems] Cons.IH show ?case by auto
qed

lemma polygon_rings_None:
  "polygon_rings rs = Inr None \<Longrightarrow>
     \<exists>rings. rs = map (\<lambda>ring. JList (map JList ring)) rings \<and> (\<forall>ring\<in>set rings. ring_ok ring)"
proof (induction rs)
  case Nil
  then show ?case by simp
next
  case (Cons ring rest)
  from polygon_rings_Cons_Inr [OF Cons.prems]
  obtain pts where rest: "polygon_rings rest = Inr None"
    and p: "ring = JList (map JList pts)" "ring_ok pts"
    by auto
  from Cons.IH [OF rest] obtain rings where
    "rest = map (\<lambda>ring. JList (map JList ring)) rings" "\<forall>ring\<in>set rings. ring_ok ring"
    by blast
  with p have "ring # rest = map (\<lambda>ring. JList (map JList ring)) (pts # rings) \<and>
      (\<forall>ring\<in>set (pts # rings). ring_ok ring)"
    by simp
  then show ?case by (rule exI [of _ "pts # rings"])
qed

lemma validate_polygon_True:
  assumes "validate_polygon c = Inr (True, m)"
  shows "m = Text ''Location format is valid.'' \<and>
     (\<exists>rings. c = poly_coords rings \<and> rings \<noteq> [] \<and> (\<forall>ring\<in>set rings. ring_ok ring))"
proof -
  from assms have "\<exists>n rs r. py_len c = Inr n \<and> \<not> n < 1 \<and> py_iter c = Inr rs \<and>
      polygon_rings rs = Inr r \<and>
      (case r of Some v \<Rightarrow> Inr v | None \<Rightarrow> Inr location_valid) =
        (Inr (True, m) :: verdict result)"
    unfolding validate_polygon_def by (auto simp add: ebind_eq_Inr split: if_splits)
  then obtain n rs r where n: "py_len c = Inr n" and n1: "\<not> n < 1"
    and it: "py_iter c = Inr rs" and pr: "polygon_rings rs = Inr r"
    and res: "(case r of Some v \<Rightarrow> Inr v | None \<Rightarrow> Inr location_valid) =
        (Inr (True, m) :: verdict result)"
    by blast
  have r: "r = None"
  proof (cases r)
    case (Some v)
    with res pr polygon_rings_Some_False [of rs v] show ?thesis by auto
  qed simp
  with res have m: "m = Text ''Location format is valid.''"
    by (simp add: location_valid_def)
  from r pr polygon_rings_None obtain rings where
    rings: "rs = map (\<lambda>ring. JList (map JList ring)) rings" "\<forall>ring\<in>set rings. ring_ok ring"
    by blast
  have "c = poly_coords rings \<and> rings \<noteq> []"
  proof (cases c)
    case (JList xs)
    with it rings n n1 show ?thesis by (auto simp: poly_coords_def)
  next
    case (JStr s)
    with n n1 have "s \<noteq> []" by auto
    with JStr it rings show ?thesis by (cases s; cases rings) auto
  next
    case (JDict d)
    with n n1 have "d \<noteq> []" by auto
    with JDict it rings show ?thesis by (cases d; cases rings) auto
  qed (use n in simp_all)
  with m rings(2) show ?thesis by blast
qed

lemma ring_ok_iff_rule: "ring_ok ring \<longleftrightarrow> ring_rule ring = None"
  by (auto simp add: ring_ok_def ring_rule_def first_violation_None point_rule_None
      pair_in_polygon_range_def simp del: in_bounds.simps)

lemma validate_polygon_success:
  "validate_polygon c = Inr (True, Text ''Location format is valid.'') \<longleftrightarrow>
     (\<exists>rings. c = poly_coords rings \<and> rings \<noteq> [] \<and> (\<forall>ring\<in>set rings. ring_ok ring))"
proof
  assume "validate_polygon c = Inr (True, Text ''Location format is valid.'')"
  then show "\<exists>rings. c = poly_coords rings \<and> rings \<noteq> [] \<and> (\<forall>ring\<in>set rings. ring_ok ring)"
    using validate_polygon_True by blast
next
  assume "\<exists>rings. c = poly_coords rings \<and> rings \<noteq> [] \<and> (\<forall>ring\<in>set rings. ring_ok ring)"
  then obtain rings where c: "c = poly_coords rings" and ne: "rings \<noteq> []"
    and ok: "\<forall>ring\<in>set rings. ring_ok ring"
    by blast
  from ok have num: "\<forall>ring\<in>set rings. \<forall>p\<in>set ring. \<forall>v\<in>set p. num_of v \<noteq> None"
    unfolding ring_ok_def using pair_numeric by blast
  from ok have "first_violation ring_rule rings = None"
    by (simp add: first_violation_None ring_ok_iff_rule)
  with ne have "polygon_rule rings = (True, Text ''Location format is valid.'')"
    by (simp add: polygon_rule_def)
  with validate_polygon_numeric [OF num] c
  show "validate_polygon c = Inr (True, Text ''Location format is valid.'')"
    by simp
qed

section \<open>The messages of the validators\<close>

lemma linestring_points_Cons_Inr:
  assumes "linestring_points (pt # rest) = Inr r"
  shows "r = Some (False,
           Text ''Each point in LineString must have exactly two elements (longitude, latitude).'') \<or>
         r = Some (False,
           Text ''Invalid point in LineString. Longitude must be in [-180, 180] and latitude in [-90, 90].'') \<or>
         linestring_points rest = Inr r"
proof -
  from assms obtain n where n: "py_len pt = Inr n"
    by (cases "py_len pt") simp_all
  show ?thesis
  proof (cases "n = 2")
    case False
    with assms n show ?thesis by (simp; blast)
  next
    case True
    with assms n obtain lon lat where u: "unpack2 pt = Inr (lon, lat)"
      by (cases "unpack2 pt") auto
    with assms n True obtain ok where
      ok: "py_and (in_range (- 180) 180 lon) (in_range (- 90) 90 lat) = Inr ok"
      by (cases "py_and (in_range (- 180) 180 lon) (in_range (- 90) 90 lat)") simp_all
    with assms n True u show ?thesis
      by (cases ok) (simp; blast)+
  qed
qed

lemma linestring_points_Some:
  "linestring_points ps = Inr (Some v) \<Longrightarrow>
     v = (False,
       Text ''Each point in LineString must have exactly two elements (longitude, latitude).'') \<or>
     v = (False,
       Text ''Invalid point in LineString. Longitude must be in [-180, 180] and latitude in [-90, 90].'')"
proof (induction ps)
  case Nil
  then show ?case by simp
next
  case (Cons pt rest)
  from linestring_points_Cons_Inr [OF Cons.prems] Cons.IH show ?case by blast
qed

lemma polygon_points_Cons_verdicts:
  assumes "polygon_points (pt # rest) = Inr r"
  shows "r = Some (False,
           Text ''Each point in a Polygon ring must have exactly two elements (longitude, latitude).'') \<or>
         r = Some (False,
           Text ''Invalid point in Polygon. Longitude must be in [-180, 180] and latitude in [-90, 90].'') \<or>
         polygon_points rest = Inr r"
proof -
  from assms obtain n where n: "py_len pt = Inr n"
    by (cases "py_len pt") simp_all
  show ?thesis
  proof (cases "n = 2")
    case False
    with assms n show ?thesis by (simp; blast)
  next
    case True
    with assms n obtain lon lat where u: "unpack2 pt = Inr (lon, lat)"
      by (cases "unpack2 pt") auto
    with assms n True obtain ok where
      ok: "py_and (in_range (- 180) 180 lon) (in_range (- 180) 180 lat) = Inr ok"
      by (cases "py_and (in_range (- 180) 180 lon) (in_range (- 180) 180 lat)") simp_all
    with assms n True u show ?thesis
      by (cases ok) (simp; blast)+
  qed
qed

lemma polygon_points_Some:
  "polygon_points ps = Inr (Some v) \<Longrightarrow>
     v = (False,
       Text ''Each point in a Polygon ring must have exactly two elements (longitude, latitude).'') \<or>
     v = (False,
       Text ''Invalid point in Polygon. Longitude must be in [-180, 180] and latitude in [-90, 90].'')"
proof (induction ps)
  case Nil
  then show ?case by simp
next
  case (Cons pt rest)
  from polygon_points_Cons_verdicts [OF Cons.prems] Cons.IH show ?case by blast
qed

lemma polygon_rings_Cons_verdicts:
  assumes "polygon_rings (ring # rest) = Inr r"
  shows "r = Some (False,
           Text ''Each linear ring in Polygon must have at least four points (coordinate pairs).'') \<or>
         r = Some (False,
           Text ''The first and last point in each linear ring must be the same to close the Polygon.'') \<or>
         r = Some (False,
           Text ''Each point in a Polygon ring must have exactly two elements (longitude, latitude).'') \<or>
         r = Some (False,
           Text ''Invalid point in Polygon. Longitude must be in [-180, 180] and latitude in [-90, 90].'') \<or>
         polygon_rings rest = Inr r"
proof -
  from assms obtain n where n: "py_len ring = Inr n"
    by (cases "py_len ring") simp_all
  show ?thesis
  proof (cases "n < 4")
    case True
    with assms n show ?thesis by (simp; blast)
  next
    case False
    with assms n obtain p0 where p0: "py_index ring 0 = Inr p0"
      by (cases "py_index ring 0") simp_all
    with assms n False obtain pn where pn: "py_index ring (- 1) = Inr pn"
      by (cases "py_index ring (- 1)") simp_all
    show ?thesis
    proof (cases "py_ne p0 pn")
      case True
      with assms n False p0 pn show ?thesis by (simp; blast)
    next
      case ne: False
      with assms n False p0 pn obtain points where it: "py_iter ring = Inr points"
        by (cases "py_iter ring") simp_all
      with assms n False p0 pn ne obtain r' where pp: "polygon_points points = Inr r'"
        by (cases "polygon_points points") simp_all
      show ?thesis
      proof (cases r')
        case None
        with assms n False p0 pn ne it pp show ?thesis by simp
      next
        case (Some v)
        with assms n False p0 pn ne it pp have r: "r = Some v" by simp
        from Some pp have "polygon_points points = Inr (Some v)" by simp
        from polygon_points_Some [OF this] show ?thesis
          by (elim disjE) (simp_all add: r)
      qed
    qed
  qed
qed

lemma polygon_rings_Some:
  "polygon_rings rs = Inr (Some v) \<Longrightarrow>
     v = (False,
       Text ''Each linear ring in Polygon must have at least four points (coordinate pairs).'') \<or>
     v = (False,
       Text ''The first and last point in each linear ring must be the same to close the Polygon.'') \<or>
     v = (False,
       Text ''Each point in a Polygon ring must have exactly two elements (longitude, latitude).'') \<or>
     v = (False,
       Text ''Invalid point in Polygon. Longitude must be in [-180, 180] and latitude in [-90, 90].'')"
proof (induction rs)
  case Nil
  then show ?case by simp
next
  case (Cons ring rest)
  from polygon_rings_Cons_verdicts [OF Cons.prems] show ?case
  proof (elim disjE)
    assume "polygon_rings rest = Inr (Some v)"
    then show ?thesis by (rule Cons.IH)
  qed simp_all
qed

lemma validate_point_message:
  assumes "validate_point c = Inr (b, m)"
  shows "m \<noteq> Text ''The '@context' attribute is missing.''"
proof -
  from assms obtain n where n: "py_len c = Inr n"
    unfolding validate_point_def by (cases "py_len c") simp_all
  show ?thesis
  proof (cases "n = 2")
    case False
    with assms n show ?thesis
      unfolding validate_point_def by auto
  next
    case True
    with assms n obtain lon lat where u: "unpack2 c = Inr (lon, lat)"
      unfolding validate_point_def by (cases "unpack2 c") auto
    with assms n True obtain ok where
      ok: "py_and (in_range (- 180) 180 lon) (in_range (- 90) 90 lat) = Inr ok"
      unfolding validate_point_def
      by (cases "py_and (in_range (- 180) 180 lon) (in_range (- 90) 90 lat)") simp_all
    with assms n True u show ?thesis
      unfolding validate_point_def
      by (cases ok) (auto simp add: location_valid_def)
  qed
qed

lemma validate_linestring_message:
  assumes "validate_linestring c = Inr (b, m)"
  shows "m \<noteq> Text ''The '@context' attribute is missing.''"
proof -
  from assms obtain n where n: "py_len c = Inr n"
    unfolding validate_linestring_def by (cases "py_len c") simp_all
  show ?thesis
  proof (cases "n < 2")
    case True
    with assms n show ?thesis
      unfolding validate_linestring_def by auto
  next
    case False
    with assms n obtain points where it: "py_iter c = Inr points"
      unfolding validate_linestring_def by (cases "py_iter c") simp_all
    with assms n False obtain r where pp: "linestring_points points = Inr r"
      unfolding validate_linestring_def by (cases "linestring_points points") simp_all
    show ?thesis
    proof (cases r)
      case None
      with assms n False it pp show ?thesis
        unfolding validate_linestring_def by (auto simp add: location_valid_def)
    next
      case (Some v)
      with assms n False it pp have "v = (b, m)"
        unfolding validate_linestring_def by simp
      moreover from Some pp have "linestring_points points = Inr (Some v)" by simp
      from linestring_points_Some [OF this] have "snd v \<noteq> Text ''The '@context' attribute is missing.''"
        by (elim disjE) simp_all
      ultimately show ?thesis by simp
    qed
  qed
qed

lemma validate_polygon_message:
  assumes "validate_polygon c = Inr (b, m)"
  shows "m \<noteq> Text ''The '@context' attribute is missing.''"
proof -
  from assms obtain n where n: "py_len c = Inr n"
    unfolding validate_polygon_def by (cases "py_len c") simp_all
  show ?thesis
  proof (cases "n < 1")
    case True
    with assms n show ?thesis
      unfolding validate_polygon_def by auto
  next
    case False
    with assms n obtain rings where it: "py_iter c = Inr rings"
      unfolding validate_polygon_def by (cases "py_iter c") simp_all
    with assms n False obtain r where pp: "polygon_rings rings = Inr r"
      unfolding validate_polygon_def by (cases "polygon_rings rings") simp_all
    show ?thesis
    proof (cases r)
      case None
      with assms n False it pp show ?thesis
        unfolding validate_polygon_def by (auto simp add: location_valid_def)
    next
      case (Some v)
      with assms n False it pp have "v = (b, m)"
        unfolding validate_polygon_def by simp
      moreover from Some pp have "polygon_rings rings = Inr (Some v)" by simp
      from polygon_rings_Some [OF this] have "snd v \<noteq> Text ''The '@context' attribute is missing.''"
        by (elim disjE) simp_all
      ultimately show ?thesis by simp
    qed
  qed
qed

lemma validate_location_format_message:
  assumes "validate_location_format l = Inr (b, m)"
  shows "m \<noteq> Text ''The '@context' attribute is missing.''"
proof -
  from assms obtain missing where mi: "type_or_coordinates_missing l = Inr missing"
    unfolding validate_location_format_def
    by (cases "type_or_coordinates_missing l") simp_all
  show ?thesis
  proof (cases missing)
    case True
    with assms mi have "m = Text ''Missing 'type' or 'coordinates' in location.''"
      unfolding validate_location_format_def by simp
    then show ?thesis by simp
  next
    case nm: False
    with assms mi obtain t where t: "py_getitem_key l (lit ''type'') = Inr t"
      unfolding validate_location_format_def
      by (cases "py_getitem_key l (lit ''type'')") simp_all
    with assms mi nm obtain allowed where al: "in_allowed_types t = Inr allowed"
      unfolding validate_location_format_def
      by (cases "in_allowed_types t") simp_all
    show ?thesis
    proof (cases allowed)
      case False
      with assms mi nm t al have "m = InvalidType t"
        unfolding validate_location_format_def by simp
      then show ?thesis by simp
    next
      case True
      with assms mi nm t al obtain c where c: "py_getitem_key l (lit ''coordinates'') = Inr c"
        unfolding validate_location_format_def
        by (cases "py_getitem_key l (lit ''coordinates'')") simp_all
      with assms mi nm t al True have ife:
        "(if py_eq t (JStr (lit ''Point'')) then validate_point c
          else if py_eq t (JStr (lit ''LineString'')) then validate_linestring c
          else if py_eq t (JStr (lit ''Polygon'')) then validate_polygon c
          else Inr location_valid) = Inr (b, m)"
        unfolding validate_location_format_def by simp
      show ?thesis
      proof (cases "py_eq t (JStr (lit ''Point''))")
        case True
        with ife have "validate_point c = Inr (b, m)" by simp
        then show ?thesis by (rule validate_point_message)
      next
        case np: False
        show ?thesis
        proof (cases "py_eq t (JStr (lit ''LineString''))")
          case True
          with ife np have "validate_linestring c = Inr (b, m)" by simp
          then show ?thesis by (rule validate_linestring_message)
        next
          case nl: False
          show ?thesis
          proof (cases "py_eq t (JStr (lit ''Polygon''))")
            case True
            with ife np nl have "validate_polygon c = Inr (b, m)" by simp
            then show ?thesis by (rule validate_polygon_message)
          next
            case False
            with ife np nl have "m = Text ''Location format is valid.''"
              by (simp add: location_valid_def)
            then show ?thesis by simp
          qed
        qed
      qed
    qed
  qed
qed

lemma validate_context_format_message:
  assumes "validate_context_format v = Inr (b, m)"
  shows "m \<noteq> Text ''The '@context' attribute is missing.''"
proof (cases "\<not> is_list v \<or> v = JList []")
  case True
  then have "validate_context_format v =
      Inr (False, Text ''The '@context' attribute should be a non-empty list'')"
    using validate_context_format_not_list validate_context_format_Nil by blast
  with assms show ?thesis by auto
next
  case False
  then obtain x rest where v: "v = JList (x # rest)"
    by (cases v) (auto simp: neq_Nil_conv)
  with assms obtain ok where "py_startswith x expected_prefix = Inr ok"
    by (cases "py_startswith x expected_prefix") (simp_all add: validate_context_format_Cons)
  with assms v show ?thesis
    by (cases ok) (auto simp add: validate_context_format_Cons)
qed

lemma context_present_never_missing:
  assumes "map_of d (lit ''@context'') = Some v"
  shows "validate_json_data (JDict d) \<noteq> Inr (b, Text ''The '@context' attribute is missing.'')"
proof
  assume a: "validate_json_data (JDict d) = Inr (b, Text ''The '@context' attribute is missing.'')"
  have c: "check_context_in_json (JDict d) = validate_context_format v"
    using assms by (simp add: check_context_in_json_JDict)
  from a obtain b1 m1 where l1: "check_location_in_json (JDict d) = Inr (b1, m1)"
    unfolding validate_json_data_unfold
    by (cases "check_location_in_json (JDict d)") auto
  have m1: "m1 \<noteq> Text ''The '@context' attribute is missing.''"
  proof (cases "map_of d (lit ''location'')")
    case None
    with l1 show ?thesis by (auto simp add: check_location_in_json_JDict)
  next
    case (Some l)
    with l1 have "validate_location_format l = Inr (b1, m1)"
      by (simp add: check_location_in_json_JDict)
    then show ?thesis by (rule validate_location_format_message)
  qed
  show False
  proof (cases b1)
    case False
    with a l1 m1 show ?thesis
      unfolding validate_json_data_unfold by simp
  next
    case True
    with a l1 obtain b2 m2 where c2: "validate_context_format v = Inr (b2, m2)"
      unfolding validate_json_data_unfold c
      by (cases "validate_context_format v") auto
    with a l1 True validate_context_format_message [OF c2] show ?thesis
      unfolding validate_json_data_unfold c
      by (cases b2) simp_all
  qed
qed

section \<open>The document validator\<close>

text \<open>
  C1. \<^verbatim>\<open>validate_json_data\<close> runs the field-checks in the order location, \<^verbatim>\<open>@context\<close>.
  The verdict of the first check that fails is returned as it is; when both pass the
  verdict is \<open>(True, "Data model is valid.")\<close>; when both checks would fail, the message
  is the one of the location check.
\<close>

theorem validate_json_data_first_failure:
  "validation_functions = [check_location_in_json, check_context_in_json] \<and>
   (check_location_in_json doc = Inr (False, m) \<longrightarrow> validate_json_data doc = Inr (False, m)) \<and>
   (check_location_in_json doc = Inr (True, m1) \<and> check_context_in_json doc = Inr (False, m)
      \<longrightarrow> validate_json_data doc = Inr (False, m)) \<and>
   (check_location_in_json doc = Inr (True, m1) \<and> check_context_in_json doc = Inr (True, m2)
      \<longrightarrow> validate_json_data doc = Inr (True, Text ''Data model is valid.'')) \<and>
   (check_location_in_json doc = Inr (False, m) \<and> check_context_in_json doc = Inr (False, m2)
      \<longrightarrow> validate_json_data doc = Inr (False, m))"
  using validate_json_data_location_fails validate_json_data_context_fails
    validate_json_data_all_pass
  by (simp add: validation_functions_def)

text \<open>The empty document fails both checks; a document with a valid location alone fails
  the second; a document with both fields valid passes.\<close>

theorem validate_json_data_first_failure_witness:
  "check_location_in_json (JDict []) = Inr (False, Text ''The 'location' attribute is missing.'') \<and>
   check_context_in_json (JDict []) = Inr (False, Text ''The '@context' attribute is missing.'') \<and>
   validate_json_data (JDict []) = Inr (False, Text ''The 'location' attribute is missing.'') \<and>
   check_location_in_json (JDict [(lit ''location'', example_point)]) =
     Inr (True, Text ''Location format is valid.'') \<and>
   check_context_in_json (JDict [(lit ''location'', example_point)]) =
     Inr (False, Text ''The '@context' attribute is missing.'') \<and>
   validate_json_data (JDict [(lit ''location'', example_point)]) =
     Inr (False, Text ''The '@context' attribute is missing.'') \<and>
   check_location_in_json
     (JDict [(lit ''location'', example_point), (lit ''@context'', example_context)]) =
     Inr (True, Text ''Location format is valid.'') \<and>
   check_context_in_json
     (JDict [(lit ''location'', example_point), (lit ''@context'', example_context)]) =
     Inr (True, Text ''Context format is valid.'') \<and>
   validate_json_data
     (JDict [(lit ''location'', example_point), (lit ''@context'', example_context)]) =
     Inr (True, Text ''Data model is valid.'')"
proof -
  have l0: "check_location_in_json (JDict []) =
      Inr (False, Text ''The 'location' attribute is missing.'')"
    by (simp add: check_location_in_json_JDict)
  have c0: "check_context_in_json (JDict []) =
      Inr (False, Text ''The '@context' attribute is missing.'')"
    by (simp add: check_context_in_json_JDict)
  have l1: "check_location_in_json (JDict [(lit ''location'', example_point)]) =
      Inr (True, Text ''Location format is valid.'')"
    by (simp add: check_location_in_json_JDict validate_location_format_def validate_point_def
        py_defs)
  have c1: "check_context_in_json (JDict [(lit ''location'', example_point)]) =
      Inr (False, Text ''The '@context' attribute is missing.'')"
    by (simp add: check_context_in_json_JDict lit_def)
  have l2: "check_location_in_json
      (JDict [(lit ''location'', example_point), (lit ''@context'', example_context)]) =
      Inr (True, Text ''Location format is valid.'')"
    by (simp add: check_location_in_json_JDict validate_location_format_def validate_point_def
        py_defs)
  have c2: "check_context_in_json
      (JDict [(lit ''location'', example_point), (lit ''@context'', example_context)]) =
      Inr (True, Text ''Context format is valid.'')"
    by (simp add: check_context_in_json_JDict validate_context_format_def py_defs)
  have v0: "validate_json_data (JDict []) =
      Inr (False, Text ''The 'location' attribute is missing.'')"
    using validate_json_data_first_failure
      [of "JDict []" "Text ''The 'location' attribute is missing.''" _
          "Text ''The '@context' attribute is missing.''"] l0 c0
    by blast
  have v1: "validate_json_data (JDict [(lit ''location'', example_point)]) =
      Inr (False, Text ''The '@context' attribute is missing.'')"
    using validate_json_data_first_failure
      [of "JDict [(lit ''location'', example_point)]"
          "Text ''The '@context' attribute is missing.''" "Text ''Location format is valid.''"]
      l1 c1
    by blast
  have v2: "validate_json_data
      (JDict [(lit ''location'', example_point), (lit ''@context'', example_context)]) =
      Inr (True, Text ''Data model is valid.'')"
    using validate_json_data_first_failure
      [of "JDict [(lit ''location'', example_point), (lit ''@context'', example_context)]" _
          "Text ''Location format is valid.''" "Text ''Context format is valid.''"]
      l2 c2
    by blast
  show ?thesis
    using l0 c0 v0 l1 c1 v1 l2 c2 v2 by blast
qed

text \<open>
  C7. A mapping without the key \<^verbatim>\<open>location\<close> gets the verdict
  \<open>(False, "The 'location' attribute is missing.")\<close>; a mapping whose location passes and
  that has no key \<^verbatim>\<open>@context\<close> gets \<open>(False, "The '@context' attribute is missing.")\<close>.
\<close>

theorem missing_attribute_verdicts:
  "(map_of d (lit ''location'') = None \<longrightarrow>
      validate_json_data (JDict d) = Inr (False, Text ''The 'location' attribute is missing.'')) \<and>
   (map_of d (lit ''location'') = Some location \<and>
    validate_location_format location = Inr (True, m) \<and>
    map_of d (lit ''@context'') = None \<longrightarrow>
      validate_json_data (JDict d) = Inr (False, Text ''The '@context' attribute is missing.''))"
  by (simp add: validate_json_data_def validation_functions_def
      check_location_in_json_JDict check_context_in_json_JDict)

theorem missing_attribute_verdicts_witness:
  "map_of [(lit ''@context'', example_context)] (lit ''location'') = None \<and>
   validate_json_data (JDict [(lit ''@context'', example_context)]) =
     Inr (False, Text ''The 'location' attribute is missing.'') \<and>
   map_of [(lit ''location'', example_point)] (lit ''location'') = Some example_point \<and>
   validate_location_format example_point = Inr (True, Text ''Location format is valid.'') \<and>
   map_of [(lit ''location'', example_point)] (lit ''@context'') = None \<and>
   validate_json_data (JDict [(lit ''location'', example_point)]) =
     Inr (False, Text ''The '@context' attribute is missing.'')"
proof -
  have a: "map_of [(lit ''@context'', example_context)] (lit ''location'') = None"
    by (simp add: lit_def)
  have b: "map_of [(lit ''location'', example_point)] (lit ''location'') = Some example_point"
    "map_of [(lit ''location'', example_point)] (lit ''@context'') = None"
    by (simp_all add: lit_def)
  have c: "validate_location_format example_point = Inr (True, Text ''Location format is valid.'')"
    by (simp add: validate_location_format_def validate_point_def py_defs)
  have v1: "validate_json_data (JDict [(lit ''@context'', example_context)]) =
      Inr (False, Text ''The 'location' attribute is missing.'')"
    using missing_attribute_verdicts [of "[(lit ''@context'', example_context)]"] a by blast
  have v2: "validate_json_data (JDict [(lit ''location'', example_point)]) =
      Inr (False, Text ''The '@context' attribute is missing.'')"
    using missing_attribute_verdicts
      [of "[(lit ''location'', example_point)]" example_point "Text ''Location format is valid.''"]
      b c
    by blast
  show ?thesis
    using a b c v1 v2 by blast
qed



text \<open>
  C10. When the key \<^verbatim>\<open>@context\<close> is present and its value is not a list, or is the empty
  list, the \<^verbatim>\<open>@context\<close> check returns
  \<open>(False, "The '@context' attribute should be a non-empty list")\<close>, which is not the
  message of a missing attribute; this is the verdict of the document whenever its
  location check passes, and in no case is the message of the document the one of a
  missing \<^verbatim>\<open>@context\<close>. Presence is membership of the key: the value \<^verbatim>\<open>None\<close> counts as
  present.
\<close>

theorem context_not_nonempty_list:
  assumes "map_of d (lit ''@context'') = Some v"
    and "\<not> is_list v \<or> v = JList []"
  shows "check_context_in_json (JDict d) =
           Inr (False, Text ''The '@context' attribute should be a non-empty list'') \<and>
         check_context_in_json (JDict d) \<noteq>
           Inr (False, Text ''The '@context' attribute is missing.'') \<and>
         (check_location_in_json (JDict d) = Inr (True, m) \<longrightarrow>
            validate_json_data (JDict d) =
              Inr (False, Text ''The '@context' attribute should be a non-empty list'')) \<and>
         validate_json_data (JDict d) \<noteq> Inr (b, Text ''The '@context' attribute is missing.'')"
proof -
  have v: "validate_context_format v =
      Inr (False, Text ''The '@context' attribute should be a non-empty list'')"
    using assms(2) validate_context_format_not_list validate_context_format_Nil by blast
  then have c: "check_context_in_json (JDict d) =
      Inr (False, Text ''The '@context' attribute should be a non-empty list'')"
    using assms(1) by (simp add: check_context_in_json_JDict)
  have ne: "check_context_in_json (JDict d) \<noteq>
      Inr (False, Text ''The '@context' attribute is missing.'')"
    by (simp add: c)
  have doc: "check_location_in_json (JDict d) = Inr (True, m) \<longrightarrow>
      validate_json_data (JDict d) =
        Inr (False, Text ''The '@context' attribute should be a non-empty list'')"
    using validate_json_data_context_fails [OF _ c] by (rule impI)
  have never: "validate_json_data (JDict d) \<noteq>
      Inr (b, Text ''The '@context' attribute is missing.'')"
    by (rule context_present_never_missing [OF assms(1)])
  show ?thesis
    by (intro conjI c ne doc never)
qed

theorem context_not_nonempty_list_witness:
  "validate_json_data (JDict [(lit ''location'', example_point), (lit ''@context'', JNull)]) =
     Inr (False, Text ''The '@context' attribute should be a non-empty list'') \<and>
   validate_json_data (JDict [(lit ''location'', example_point), (lit ''@context'', JList [])]) =
     Inr (False, Text ''The '@context' attribute should be a non-empty list'')"
proof -
  have k: "map_of [(lit ''location'', example_point), (lit ''@context'', v)] (lit ''@context'') =
      Some v" for v
    by (simp add: lit_def)
  have l: "check_location_in_json (JDict [(lit ''location'', example_point), (lit ''@context'', v)]) =
      Inr (True, Text ''Location format is valid.'')" for v
    by (simp add: check_location_in_json_JDict validate_location_format_def validate_point_def
        py_defs)
  have n: "\<not> is_list JNull \<or> JNull = JList []" "\<not> is_list (JList []) \<or> JList [] = JList []"
    by simp_all
  note 1 = context_not_nonempty_list
    [OF k n(1), THEN conjunct2, THEN conjunct2, THEN conjunct1, THEN mp, OF l]
  note 2 = context_not_nonempty_list
    [OF k n(2), THEN conjunct2, THEN conjunct2, THEN conjunct1, THEN mp, OF l]
  show ?thesis
    by (intro conjI 1 2)
qed

section \<open>The context validator\<close>

text \<open>
  C6. \<^verbatim>\<open>validate_context_format\<close> succeeds exactly on a non-empty list whose first
  element is a string starting with
  \<^verbatim>\<open>https://raw.githubusercontent.com/smart-data-models/\<close>. When the first element is a
  string without that prefix the verdict is \<open>(False, "Invalid @context URL.")\<close>, a fixed
  text that does not contain the URL. The elements after the first are never read: the
  result does not depend on them.
\<close>

theorem validate_context_format_spec:
  "((\<exists>m. validate_context_format c = Inr (True, m)) \<longleftrightarrow>
      (\<exists>s rest. c = JList (JStr s # rest) \<and> startswith s expected_prefix)) \<and>
   (startswith s expected_prefix \<longrightarrow>
      validate_context_format (JList (JStr s # rest)) = Inr (True, Text ''Context format is valid.'')) \<and>
   (\<not> startswith s expected_prefix \<longrightarrow>
      validate_context_format (JList (JStr s # rest)) = Inr (False, Text ''Invalid @context URL.'')) \<and>
   validate_context_format (JList (x # rest)) = validate_context_format (JList (x # rest'))"
  using validate_context_format_success [of c]
  by (simp add: validate_context_format_Cons)

theorem validate_context_format_spec_witness:
  "startswith (lit ''https://raw.githubusercontent.com/smart-data-models/foo'') expected_prefix \<and>
   validate_context_format
     (JList [JStr (lit ''https://raw.githubusercontent.com/smart-data-models/foo''), JInt 3]) =
     Inr (True, Text ''Context format is valid.'') \<and>
   \<not> startswith (lit ''http://other.org/x'') expected_prefix \<and>
   validate_context_format (JList [JStr (lit ''http://other.org/x'')]) =
     Inr (False, Text ''Invalid @context URL.'')"
proof -
  have a: "startswith (lit ''https://raw.githubusercontent.com/smart-data-models/foo'') expected_prefix"
    by (simp add: py_defs)
  have b: "\<not> startswith (lit ''http://other.org/x'') expected_prefix"
    by (simp add: py_defs)
  have 1: "validate_context_format
     (JList [JStr (lit ''https://raw.githubusercontent.com/smart-data-models/foo''), JInt 3]) =
     Inr (True, Text ''Context format is valid.'')"
    using validate_context_format_spec
      [of _ "lit ''https://raw.githubusercontent.com/smart-data-models/foo''" "[JInt 3]"] a
    by blast
  have 2: "validate_context_format (JList [JStr (lit ''http://other.org/x'')]) =
     Inr (False, Text ''Invalid @context URL.'')"
    using validate_context_format_spec [of _ "lit ''http://other.org/x''" "[]"] b
    by blast
  show ?thesis
    using a b 1 2 by blast
qed

text \<open>The message for \<^verbatim>\<open>["http://other.org/x"]\<close> does not name the URL.\<close>

theorem context_message_omits_url:
  "validate_context_format (JList [JStr (lit ''http://other.org/x'')]) =
      Inr (False, Text ''Invalid @context URL.'') \<and>
   \<not> is_substring (lit ''http://other.org/x'') (lit ''Invalid @context URL.'')"
  by (simp add: validate_context_format_Cons py_defs)

section \<open>The geometry validator\<close>

text \<open>
  C3. The range test of a Polygon point bounds the latitude by \<open>[-180, 180]\<close> and not by
  \<open>[-90, 90]\<close>: a point of two finite numbers passes it exactly when both numbers are in
  \<open>[-180, 180]\<close>, bounds included, while a Point and a point of a LineString pass exactly
  when the longitude is in \<open>[-180, 180]\<close> and the latitude in \<open>[-90, 90]\<close>. So a point with
  longitude in \<open>[-180, 180]\<close> and latitude strictly between 90 and 180, or strictly between
  -180 and -90, passes in a Polygon (the loop goes on to the next point, and a ring made of
  this point is valid) and is rejected as a Point and in a LineString.
\<close>

theorem polygon_latitude_bound:
  assumes "num_of lon = Some (Fin x)" and "num_of lat = Some (Fin y)"
  shows
   "polygon_points (JList [lon, lat] # rest) =
      (if - 180 \<le> x \<and> x \<le> 180 \<and> - 180 \<le> y \<and> y \<le> 180 then polygon_points rest
       else Inr (Some (False,
         Text ''Invalid point in Polygon. Longitude must be in [-180, 180] and latitude in [-90, 90].''))) \<and>
    validate_location_format
      (geometry ''Polygon'' (JList [JList [JList [lon, lat], JList [lon, lat],
                                           JList [lon, lat], JList [lon, lat]]])) =
      (if - 180 \<le> x \<and> x \<le> 180 \<and> - 180 \<le> y \<and> y \<le> 180
       then Inr (True, Text ''Location format is valid.'')
       else Inr (False,
         Text ''Invalid point in Polygon. Longitude must be in [-180, 180] and latitude in [-90, 90].'')) \<and>
    validate_location_format (geometry ''Point'' (JList [lon, lat])) =
      (if - 180 \<le> x \<and> x \<le> 180 \<and> - 90 \<le> y \<and> y \<le> 90
       then Inr (True, Text ''Location format is valid.'')
       else Inr (False,
         Text ''Invalid coordinates for 'Point'. Longitude must be in [-180, 180] and latitude in [-90, 90].'')) \<and>
    linestring_points (JList [lon, lat] # rest) =
      (if - 180 \<le> x \<and> x \<le> 180 \<and> - 90 \<le> y \<and> y \<le> 90 then linestring_points rest
       else Inr (Some (False,
         Text ''Invalid point in LineString. Longitude must be in [-180, 180] and latitude in [-90, 90].''))) \<and>
    validate_location_format (geometry ''LineString'' (JList [JList [lon, lat], JList [lon, lat]])) =
      (if - 180 \<le> x \<and> x \<le> 180 \<and> - 90 \<le> y \<and> y \<le> 90
       then Inr (True, Text ''Location format is valid.'')
       else Inr (False,
         Text ''Invalid point in LineString. Longitude must be in [-180, 180] and latitude in [-90, 90].'')) \<and>
    (- 180 \<le> x \<and> x \<le> 180 \<and> ((90 < y \<and> y < 180) \<or> (- 180 < y \<and> y < - 90)) \<longrightarrow>
       polygon_points (JList [lon, lat] # rest) = polygon_points rest \<and>
       validate_location_format
         (geometry ''Polygon'' (JList [JList [JList [lon, lat], JList [lon, lat],
                                              JList [lon, lat], JList [lon, lat]]])) =
         Inr (True, Text ''Location format is valid.'') \<and>
       validate_location_format (geometry ''Point'' (JList [lon, lat])) =
         Inr (False,
           Text ''Invalid coordinates for 'Point'. Longitude must be in [-180, 180] and latitude in [-90, 90].'') \<and>
       linestring_points (JList [lon, lat] # rest) =
         Inr (Some (False,
           Text ''Invalid point in LineString. Longitude must be in [-180, 180] and latitude in [-90, 90].'')) \<and>
       validate_location_format
         (geometry ''LineString'' (JList [JList [lon, lat], JList [lon, lat]])) =
         Inr (False,
           Text ''Invalid point in LineString. Longitude must be in [-180, 180] and latitude in [-90, 90].''))"
proof -
  have num: "num_of lon \<noteq> None" "num_of lat \<noteq> None"
    using assms by simp_all
  have b: "in_bounds lo hi lon \<longleftrightarrow> of_int lo \<le> x \<and> x \<le> of_int hi"
    "in_bounds lo hi lat \<longleftrightarrow> of_int lo \<le> y \<and> y \<le> of_int hi" for lo hi
    using assms by simp_all
  have poly: "polygon_points (JList [lon, lat] # rest) =
      (if - 180 \<le> x \<and> x \<le> 180 \<and> - 180 \<le> y \<and> y \<le> 180 then polygon_points rest
       else Inr (Some (False,
         Text ''Invalid point in Polygon. Longitude must be in [-180, 180] and latitude in [-90, 90].'')))"
    for rest
    by (simp add: polygon_points_pair num b del: polygon_points.simps in_bounds.simps)
  have line: "linestring_points (JList [lon, lat] # rest) =
      (if - 180 \<le> x \<and> x \<le> 180 \<and> - 90 \<le> y \<and> y \<le> 90 then linestring_points rest
       else Inr (Some (False,
         Text ''Invalid point in LineString. Longitude must be in [-180, 180] and latitude in [-90, 90].'')))"
    for rest
    by (simp add: linestring_points_pair num b del: linestring_points.simps in_bounds.simps)
  have point: "validate_point (JList [lon, lat]) =
      (if - 180 \<le> x \<and> x \<le> 180 \<and> - 90 \<le> y \<and> y \<le> 90
       then Inr (True, Text ''Location format is valid.'')
       else Inr (False,
         Text ''Invalid coordinates for 'Point'. Longitude must be in [-180, 180] and latitude in [-90, 90].''))"
    by (simp add: validate_point_pair num b location_valid_def del: in_bounds.simps)
  have self: "\<not> py_ne (JList [lon, lat]) (JList [lon, lat])"
    using num by (simp add: py_ne_def py_eq_numeric)
  have ring: "polygon_rings [JList [JList [lon, lat], JList [lon, lat],
                                     JList [lon, lat], JList [lon, lat]]] =
      (if - 180 \<le> x \<and> x \<le> 180 \<and> - 180 \<le> y \<and> y \<le> 180 then Inr None
       else Inr (Some (False,
         Text ''Invalid point in Polygon. Longitude must be in [-180, 180] and latitude in [-90, 90].'')))"
    using self
    by (simp del: polygon_points.simps py_eq.simps add: list_index_def poly polygon_points.simps(1))
  have g: "map_of [(lit ''type'', JStr (lit t)), (lit ''coordinates'', c)] (lit ''type'') = Some (JStr (lit t))"
    "map_of [(lit ''type'', JStr (lit t)), (lit ''coordinates'', c)] (lit ''coordinates'') = Some c"
    for t c
    by (simp_all add: lit_def)
  have 1: "validate_location_format
      (geometry ''Polygon'' (JList [JList [JList [lon, lat], JList [lon, lat],
                                           JList [lon, lat], JList [lon, lat]]])) =
      (if - 180 \<le> x \<and> x \<le> 180 \<and> - 180 \<le> y \<and> y \<le> 180
       then Inr (True, Text ''Location format is valid.'')
       else Inr (False,
         Text ''Invalid point in Polygon. Longitude must be in [-180, 180] and latitude in [-90, 90].''))"
    unfolding geometry_def validate_location_format_dispatch [OF g]
    by (simp add: lit_def validate_polygon_def ring location_valid_def del: polygon_rings.simps)
  have 2: "validate_location_format (geometry ''Point'' (JList [lon, lat])) =
      (if - 180 \<le> x \<and> x \<le> 180 \<and> - 90 \<le> y \<and> y \<le> 90
       then Inr (True, Text ''Location format is valid.'')
       else Inr (False,
         Text ''Invalid coordinates for 'Point'. Longitude must be in [-180, 180] and latitude in [-90, 90].''))"
    unfolding geometry_def validate_location_format_dispatch [OF g]
    by (simp add: point)
  have 3: "validate_location_format (geometry ''LineString'' (JList [JList [lon, lat], JList [lon, lat]])) =
      (if - 180 \<le> x \<and> x \<le> 180 \<and> - 90 \<le> y \<and> y \<le> 90
       then Inr (True, Text ''Location format is valid.'')
       else Inr (False,
         Text ''Invalid point in LineString. Longitude must be in [-180, 180] and latitude in [-90, 90].''))"
    unfolding geometry_def validate_location_format_dispatch [OF g]
    by (simp del: linestring_points.simps
        add: lit_def validate_linestring_def line linestring_points.simps(1) location_valid_def)
  show ?thesis
    unfolding poly line 1 2 3 by (simp; auto)
qed

text \<open>Latitude 100 passes in a Polygon and fails elsewhere; in a Polygon latitude 180
  passes, 181 and -181 fail.\<close>

theorem polygon_latitude_bound_witness:
  "validate_location_format
      (geometry ''Polygon'' (JList [JList [JList [JInt 10, JInt 100], JList [JInt 10, JInt 100],
                                           JList [JInt 10, JInt 100], JList [JInt 10, JInt 100]]])) =
      Inr (True, Text ''Location format is valid.'') \<and>
   validate_location_format (geometry ''Point'' (JList [JInt 10, JInt 100])) =
     Inr (False,
        Text ''Invalid coordinates for 'Point'. Longitude must be in [-180, 180] and latitude in [-90, 90].'') \<and>
   validate_location_format
      (geometry ''LineString'' (JList [JList [JInt 10, JInt 100], JList [JInt 10, JInt 100]])) =
     Inr (False,
        Text ''Invalid point in LineString. Longitude must be in [-180, 180] and latitude in [-90, 90].'') \<and>
   validate_location_format
      (geometry ''Polygon'' (JList [JList [JList [JInt 10, JInt 180], JList [JInt 10, JInt 180],
                                           JList [JInt 10, JInt 180], JList [JInt 10, JInt 180]]])) =
      Inr (True, Text ''Location format is valid.'') \<and>
   validate_location_format
      (geometry ''Polygon'' (JList [JList [JList [JInt 10, JInt 181], JList [JInt 10, JInt 181],
                                           JList [JInt 10, JInt 181], JList [JInt 10, JInt 181]]])) =
      Inr (False,
        Text ''Invalid point in Polygon. Longitude must be in [-180, 180] and latitude in [-90, 90].'') \<and>
   validate_location_format
      (geometry ''Polygon'' (JList [JList [JList [JInt 10, JInt (- 181)], JList [JInt 10, JInt (- 181)],
                                           JList [JInt 10, JInt (- 181)], JList [JInt 10, JInt (- 181)]]])) =
      Inr (False,
        Text ''Invalid point in Polygon. Longitude must be in [-180, 180] and latitude in [-90, 90].'')"
proof -
  have lon: "num_of (JInt 10) = Some (Fin 10)"
    by simp
  have lat: "num_of (JInt 100) = Some (Fin 100)" "num_of (JInt 180) = Some (Fin 180)"
    "num_of (JInt 181) = Some (Fin 181)" "num_of (JInt (- 181)) = Some (Fin (- 181))"
    by simp_all
  note a = polygon_latitude_bound [OF lon lat(1), of "[]"]
  note b = polygon_latitude_bound [OF lon lat(2), of "[]"]
  note c = polygon_latitude_bound [OF lon lat(3), of "[]"]
  note d = polygon_latitude_bound [OF lon lat(4), of "[]"]
  have 1: "validate_location_format
      (geometry ''Polygon'' (JList [JList [JList [JInt 10, JInt 100], JList [JInt 10, JInt 100],
                                           JList [JInt 10, JInt 100], JList [JInt 10, JInt 100]]])) =
      Inr (True, Text ''Location format is valid.'')"
    using a by simp
  have 2: "validate_location_format (geometry ''Point'' (JList [JInt 10, JInt 100])) =
     Inr (False,
        Text ''Invalid coordinates for 'Point'. Longitude must be in [-180, 180] and latitude in [-90, 90].'')"
    using a by simp
  have 3: "validate_location_format
      (geometry ''LineString'' (JList [JList [JInt 10, JInt 100], JList [JInt 10, JInt 100]])) =
     Inr (False,
        Text ''Invalid point in LineString. Longitude must be in [-180, 180] and latitude in [-90, 90].'')"
    using a by simp
  have 4: "validate_location_format
      (geometry ''Polygon'' (JList [JList [JList [JInt 10, JInt 180], JList [JInt 10, JInt 180],
                                           JList [JInt 10, JInt 180], JList [JInt 10, JInt 180]]])) =
      Inr (True, Text ''Location format is valid.'')"
    using b by simp
  have 5: "validate_location_format
      (geometry ''Polygon'' (JList [JList [JList [JInt 10, JInt 181], JList [JInt 10, JInt 181],
                                           JList [JInt 10, JInt 181], JList [JInt 10, JInt 181]]])) =
      Inr (False,
        Text ''Invalid point in Polygon. Longitude must be in [-180, 180] and latitude in [-90, 90].'')"
    using c by simp
  have 6: "validate_location_format
      (geometry ''Polygon'' (JList [JList [JList [JInt 10, JInt (- 181)], JList [JInt 10, JInt (- 181)],
                                           JList [JInt 10, JInt (- 181)], JList [JInt 10, JInt (- 181)]]])) =
      Inr (False,
        Text ''Invalid point in Polygon. Longitude must be in [-180, 180] and latitude in [-90, 90].'')"
    using d by simp
  show ?thesis
    by (intro conjI 1 2 3 4 5 6)
qed

text \<open>
  What the Point branch does on every value of \<^verbatim>\<open>coordinates\<close>: validation succeeds
  exactly when it is a list of two values that Python compares as numbers (an \<^verbatim>\<open>int\<close>, a
  \<^verbatim>\<open>float\<close>, or a \<^verbatim>\<open>bool\<close> read as 1 or 0), the first in \<open>[-180, 180]\<close> and the second in
  \<open>[-90, 90]\<close>, bounds included. A list of another length gets the message about the two
  elements; a list of two such values of which one is out of range gets the message about
  the range.
\<close>

theorem validate_point_spec:
  assumes "map_of g (lit ''type'') = Some (JStr (lit ''Point''))"
    and "map_of g (lit ''coordinates'') = Some c"
  shows
   "(validate_location_format (JDict g) = Inr (True, Text ''Location format is valid.'') \<longleftrightarrow>
       (\<exists>a b x y. c = JList [a, b] \<and> num_of a = Some (Fin x) \<and> - 180 \<le> x \<and> x \<le> 180 \<and>
                   num_of b = Some (Fin y) \<and> - 90 \<le> y \<and> y \<le> 90)) \<and>
    (validate_location_format (JDict g) = Inr (True, m) \<longrightarrow>
       m = Text ''Location format is valid.'') \<and>
    (c = JList xs \<and> length xs \<noteq> 2 \<longrightarrow>
       validate_location_format (JDict g) = Inr (False,
        Text ''Point coordinates must contain exactly two elements (longitude, latitude).'')) \<and>
    (c = JList [a, b] \<and> num_of a \<noteq> None \<and> num_of b \<noteq> None \<and>
     \<not> (in_bounds (- 180) 180 a \<and> in_bounds (- 90) 90 b) \<longrightarrow>
       validate_location_format (JDict g) = Inr (False,
        Text ''Invalid coordinates for 'Point'. Longitude must be in [-180, 180] and latitude in [-90, 90].''))"
proof -
  have d: "validate_location_format (JDict g) = validate_point c"
    using validate_location_format_dispatch [OF assms] by simp
  have 0: "validate_point c = Inr (True, Text ''Location format is valid.'') \<longleftrightarrow>
      (\<exists>m. validate_point c = Inr (True, m))"
    using validate_point_valid_message by blast
  have 1: "(\<exists>m. validate_point c = Inr (True, m)) \<longleftrightarrow>
       (\<exists>a b x y. c = JList [a, b] \<and> num_of a = Some (Fin x) \<and> - 180 \<le> x \<and> x \<le> 180 \<and>
                   num_of b = Some (Fin y) \<and> - 90 \<le> y \<and> y \<le> 90)"
    unfolding validate_point_success in_bounds_iff by auto
  have 2: "c = JList xs \<and> length xs \<noteq> 2 \<longrightarrow> validate_point c = Inr (False,
        Text ''Point coordinates must contain exactly two elements (longitude, latitude).'')"
    using validate_point_wrong_length by blast
  have 3: "c = JList [a, b] \<and> num_of a \<noteq> None \<and> num_of b \<noteq> None \<and>
     \<not> (in_bounds (- 180) 180 a \<and> in_bounds (- 90) 90 b) \<longrightarrow>
       validate_point c = Inr (False,
        Text ''Invalid coordinates for 'Point'. Longitude must be in [-180, 180] and latitude in [-90, 90].'')"
    by (auto simp add: validate_point_JList2 lon_lat_test simp del: in_bounds.simps)
  have 4: "validate_point c = Inr (True, m) \<longrightarrow> m = Text ''Location format is valid.''"
    using validate_point_valid_message by blast
  show ?thesis
    unfolding d 0 using 1 2 3 4 by blast
qed

text \<open>\<^verbatim>\<open>[10, 20]\<close> is valid, \<^verbatim>\<open>[200, 10]\<close> is out of range, \<^verbatim>\<open>[1, 2, 3]\<close> has a wrong
  length.\<close>

theorem validate_point_spec_witness:
  "validate_location_format (geometry ''Point'' (JList [JInt 10, JInt 20])) =
     Inr (True, Text ''Location format is valid.'') \<and>
   validate_location_format (geometry ''Point'' (JList [JInt 200, JInt 10])) =
     Inr (False,
        Text ''Invalid coordinates for 'Point'. Longitude must be in [-180, 180] and latitude in [-90, 90].'') \<and>
   validate_location_format (geometry ''Point'' (JList [JInt 1, JInt 2, JInt 3])) =
     Inr (False,
        Text ''Point coordinates must contain exactly two elements (longitude, latitude).'')"
proof -
  have g: "map_of [(lit ''type'', JStr (lit ''Point'')), (lit ''coordinates'', c)] (lit ''type'') =
      Some (JStr (lit ''Point''))"
    "map_of [(lit ''type'', JStr (lit ''Point'')), (lit ''coordinates'', c)] (lit ''coordinates'') =
      Some c"
    for c
    by (simp_all add: lit_def)
  have ok: "\<exists>a b x y. JList [JInt 10, JInt 20] = JList [a, b] \<and>
      num_of a = Some (Fin x) \<and> - 180 \<le> x \<and> x \<le> 180 \<and>
      num_of b = Some (Fin y) \<and> - 90 \<le> y \<and> y \<le> 90"
    by simp
  have out: "JList [JInt 200, JInt 10] = JList [JInt 200, JInt 10] \<and>
     num_of (JInt 200) \<noteq> None \<and> num_of (JInt 10) \<noteq> None \<and>
     \<not> (in_bounds (- 180) 180 (JInt 200) \<and> in_bounds (- 90) 90 (JInt 10))"
    by simp
  have len: "JList [JInt 1, JInt 2, JInt 3] = JList [JInt 1, JInt 2, JInt 3] \<and>
     length [JInt 1, JInt 2, JInt 3] \<noteq> 2"
    by simp
  note 1 = validate_point_spec [OF g, THEN conjunct1, THEN iffD2, OF ok]
  note 2 = validate_point_spec
    [OF g, THEN conjunct2, THEN conjunct2, THEN conjunct2, THEN mp, OF out]
  note 3 = validate_point_spec
    [OF g, THEN conjunct2, THEN conjunct2, THEN conjunct1, THEN mp, OF len]
  show ?thesis
    unfolding geometry_def by (intro conjI 1 2 3)
qed

text \<open>
  C4. A Point is to be valid exactly when its \<^verbatim>\<open>coordinates\<close> are two numbers, the first in
  \<open>[-180, 180]\<close> and the second in \<open>[-90, 90]\<close>. The code does not keep to it: the
  coordinates \<^verbatim>\<open>[true, false]\<close>, which are not numbers of the JSON data model, are
  accepted, since the range test compares a \<^verbatim>\<open>bool\<close> as the \<^verbatim>\<open>int\<close> 1 or 0 and nothing checks
  that the values are numbers.
\<close>

theorem point_accepts_booleans:
  "validate_location_format (geometry ''Point'' (JList [JBool True, JBool False])) =
      Inr (True, Text ''Location format is valid.'') \<and>
   \<not> list_all is_number [JBool True, JBool False]"
  by (simp add: validate_location_format_def validate_point_def py_defs)

text \<open>
  What the Polygon branch does: validation succeeds exactly when \<^verbatim>\<open>coordinates\<close> is a
  non-empty list of rings, every ring is a list of at least four points, the first and
  the last point of every ring hold the same numeric values place by place (no tolerance),
  and every point of every ring is a pair of values that Python compares as numbers, both
  in \<open>[-180, 180]\<close>. When the coordinates are rings of points of such values, the verdict is
  the one of the rule read ring by ring and point by point in order: the first rule broken
  gives the message.
\<close>

theorem validate_polygon_spec:
  assumes "map_of g (lit ''type'') = Some (JStr (lit ''Polygon''))"
    and "map_of g (lit ''coordinates'') = Some c"
  shows
   "(validate_location_format (JDict g) = Inr (True, Text ''Location format is valid.'') \<longleftrightarrow>
       (\<exists>rings. c = poly_coords rings \<and> rings \<noteq> [] \<and>
          (\<forall>ring\<in>set rings. 4 \<le> length ring \<and>
             map num_of (hd ring) = map num_of (last ring) \<and>
             (\<forall>p\<in>set ring. \<exists>lon lat. p = [lon, lat] \<and>
                 in_bounds (- 180) 180 lon \<and> in_bounds (- 180) 180 lat)))) \<and>
    (c = poly_coords rings \<and> (\<forall>ring\<in>set rings. \<forall>p\<in>set ring. \<forall>v\<in>set p. num_of v \<noteq> None) \<longrightarrow>
       validate_location_format (JDict g) = Inr (polygon_rule rings))"
proof -
  have d: "validate_location_format (JDict g) = validate_polygon c"
    using validate_location_format_dispatch [OF assms] by (simp add: lit_def)
  have 1: "validate_polygon c = Inr (True, Text ''Location format is valid.'') \<longleftrightarrow>
       (\<exists>rings. c = poly_coords rings \<and> rings \<noteq> [] \<and>
          (\<forall>ring\<in>set rings. 4 \<le> length ring \<and>
             map num_of (hd ring) = map num_of (last ring) \<and>
             (\<forall>p\<in>set ring. \<exists>lon lat. p = [lon, lat] \<and>
                 in_bounds (- 180) 180 lon \<and> in_bounds (- 180) 180 lat)))"
    unfolding validate_polygon_success ring_ok_def pair_in_polygon_range_def same_point_def ..
  have 2: "c = poly_coords rings \<and>
      (\<forall>ring\<in>set rings. \<forall>p\<in>set ring. \<forall>v\<in>set p. num_of v \<noteq> None) \<longrightarrow>
       validate_polygon c = Inr (polygon_rule rings)"
    using validate_polygon_numeric by blast
  show ?thesis
    unfolding d using 1 2 by (rule conjI)
qed

text \<open>The ring \<^verbatim>\<open>[[0,0],[0,1],[1,1],[1,0]]\<close> is not closed; with \<^verbatim>\<open>[0,0]\<close> appended it is
  valid.\<close>

theorem validate_polygon_spec_witness:
  "validate_location_format
     (geometry ''Polygon''
        (JList [JList [JList [JInt 0, JInt 0], JList [JInt 0, JInt 1],
                       JList [JInt 1, JInt 1], JList [JInt 1, JInt 0]]])) =
     Inr (False,
       Text ''The first and last point in each linear ring must be the same to close the Polygon.'') \<and>
   validate_location_format
     (geometry ''Polygon''
        (JList [JList [JList [JInt 0, JInt 0], JList [JInt 0, JInt 1],
                       JList [JInt 1, JInt 1], JList [JInt 1, JInt 0], JList [JInt 0, JInt 0]]])) =
     Inr (True, Text ''Location format is valid.'')"
proof -
  have g: "map_of [(lit ''type'', JStr (lit ''Polygon'')), (lit ''coordinates'', c)] (lit ''type'') =
      Some (JStr (lit ''Polygon''))"
    "map_of [(lit ''type'', JStr (lit ''Polygon'')), (lit ''coordinates'', c)] (lit ''coordinates'') =
      Some c"
    for c
    by (simp_all add: lit_def)
  have n1: "poly_coords [[[JInt 0, JInt 0], [JInt 0, JInt 1], [JInt 1, JInt 1], [JInt 1, JInt 0]]] =
      poly_coords [[[JInt 0, JInt 0], [JInt 0, JInt 1], [JInt 1, JInt 1], [JInt 1, JInt 0]]] \<and>
    (\<forall>ring\<in>set [[[JInt 0, JInt 0], [JInt 0, JInt 1], [JInt 1, JInt 1], [JInt 1, JInt 0]]].
      \<forall>p\<in>set ring. \<forall>v\<in>set p. num_of v \<noteq> None)"
    by simp
  have n2: "poly_coords [[[JInt 0, JInt 0], [JInt 0, JInt 1], [JInt 1, JInt 1], [JInt 1, JInt 0],
                           [JInt 0, JInt 0]]] =
      poly_coords [[[JInt 0, JInt 0], [JInt 0, JInt 1], [JInt 1, JInt 1], [JInt 1, JInt 0],
                     [JInt 0, JInt 0]]] \<and>
    (\<forall>ring\<in>set [[[JInt 0, JInt 0], [JInt 0, JInt 1], [JInt 1, JInt 1], [JInt 1, JInt 0],
                      [JInt 0, JInt 0]]].
      \<forall>p\<in>set ring. \<forall>v\<in>set p. num_of v \<noteq> None)"
    by simp
  note 1 = validate_polygon_spec [OF g, THEN conjunct2, THEN mp, OF n1]
  note 2 = validate_polygon_spec [OF g, THEN conjunct2, THEN mp, OF n2]
  have r1: "polygon_rule [[[JInt 0, JInt 0], [JInt 0, JInt 1], [JInt 1, JInt 1], [JInt 1, JInt 0]]] =
      (False,
       Text ''The first and last point in each linear ring must be the same to close the Polygon.'')"
    by (simp add: polygon_rule_def ring_rule_def same_point_def)
  have r2: "polygon_rule [[[JInt 0, JInt 0], [JInt 0, JInt 1], [JInt 1, JInt 1], [JInt 1, JInt 0],
                           [JInt 0, JInt 0]]] =
      (True, Text ''Location format is valid.'')"
    by (simp add: polygon_rule_def ring_rule_def same_point_def point_rule_def)
  show ?thesis
    using 1 2 unfolding r1 r2 geometry_def poly_coords_def by simp
qed

text \<open>
  C5. Every point of every ring of a Polygon is to be an in-range pair of numbers, and the
  first and the last point of a ring are to be equal. The code does not keep to it: a ring
  of four points \<^verbatim>\<open>[true, false]\<close> is accepted, and the ring
  \<^verbatim>\<open>[[0,0],[0,1],[1,1],[0.0,false]]\<close> counts as closed, since \<^verbatim>\<open>bool\<close> values are compared
  as the \<^verbatim>\<open>int\<close> 1 or 0 and nothing checks that the values are numbers.
\<close>

theorem polygon_accepts_booleans:
  "validate_location_format
     (geometry ''Polygon''
        (JList [JList [JList [JBool True, JBool False], JList [JBool True, JBool False],
                       JList [JBool True, JBool False], JList [JBool True, JBool False]]])) =
     Inr (True, Text ''Location format is valid.'') \<and>
   \<not> list_all is_number [JBool True, JBool False] \<and>
   validate_location_format
     (geometry ''Polygon''
        (JList [JList [JList [JInt 0, JInt 0], JList [JInt 0, JInt 1],
                       JList [JInt 1, JInt 1], JList [JFloat (Fin 0), JBool False]]])) =
     Inr (True, Text ''Location format is valid.'') \<and>
   \<not> list_all is_number [JFloat (Fin 0), JBool False]"
  by (simp add: validate_location_format_def validate_polygon_def py_defs)

section \<open>Inputs on which the validators raise\<close>

text \<open>
  C2. The validators do not return a verdict on every parsed input: the root document
  \<^verbatim>\<open>5\<close> raises \<^verbatim>\<open>TypeError\<close> at \<^verbatim>\<open>"location" not in json_data\<close>, a Point whose
  \<^verbatim>\<open>coordinates\<close> is \<^verbatim>\<open>5\<close> raises \<^verbatim>\<open>TypeError\<close> at \<^verbatim>\<open>len(coordinates)\<close>, and the
  \<^verbatim>\<open>@context\<close> list \<^verbatim>\<open>[5]\<close> raises \<^verbatim>\<open>AttributeError\<close> at \<^verbatim>\<open>context_url.startswith\<close>.
\<close>

theorem validate_json_data_raises:
  "validate_json_data (JInt 5) = Inl TypeError \<and>
   validate_json_data (JDict [(lit ''location'', geometry ''Point'' (JInt 5))]) = Inl TypeError \<and>
   validate_json_data (JDict [(lit ''location'', example_point),
                              (lit ''@context'', JList [JInt 5])]) = Inl AttributeError"
  by (simp add: validate_json_data_unfold check_location_in_json_def check_context_in_json_def
      validate_location_format_def validate_point_def validate_context_format_def py_defs)

end
